theory Spec2Isabelle
  imports Complex_Main
begin

section \<open>JavaScript values\<close>

text \<open>A number as \<open>Number(x)\<close> returns it and as the store keeps it: a double is \<open>NaN\<close>,
  an infinity or a finite value. \<open>numLe\<close> is the comparison \<open>\<le>\<close> of doubles.\<close>

datatype jsnum = NaN | NegInf | Fin rat | PosInf

fun numLe :: "jsnum \<Rightarrow> jsnum \<Rightarrow> bool" where
  "numLe NaN y = False"
| "numLe x NaN = False"
| "numLe NegInf y = True"
| "numLe x PosInf = True"
| "numLe (Fin a) (Fin b) = (a \<le> b)"
| "numLe x y = False"

text \<open>
  Request bodies and parsed query strings are JSON-like documents, and an event payload
  is a plain object, so the handlers are modelled over a datatype of JavaScript values.
  \<open>JNum\<close> carries the double that \<open>JSON.parse\<close> read. An object is the list of its
  own properties in the order \<open>Object.entries\<close> enumerates them; the value of a property
  is data, never a function.
\<close>

datatype jsval =
    JUndefined
  | JNull
  | JBool bool
  | JNum jsnum
  | JStr string
  | JArr "jsval list"
  | JObj "(string \<times> jsval) list"

text \<open>Truthiness, as used by \<open>if (x)\<close>, \<open>!x\<close> and \<open>x || y\<close>.\<close>

fun truthy :: "jsval \<Rightarrow> bool" where
  "truthy JUndefined = False"
| "truthy JNull = False"
| "truthy (JBool b) = b"
| "truthy (JNum n) = (n \<noteq> NaN \<and> n \<noteq> Fin 0)"
| "truthy (JStr s) = (s \<noteq> [])"
| "truthy (JArr xs) = True"
| "truthy (JObj kvs) = True"

text \<open>Property read \<open>o?.k\<close> for the names the handlers and validators read (none is an
  array index or a built-in property such as \<open>length\<close>): a value that is not an object, or
  an object without the key, gives \<open>undefined\<close>.\<close>

fun getProp :: "jsval \<Rightarrow> string \<Rightarrow> jsval" where
  "getProp (JObj kvs) k = (case map_of kvs k of None \<Rightarrow> JUndefined | Some v \<Rightarrow> v)"
| "getProp v k = JUndefined"

definition joinWith :: "string \<Rightarrow> string list \<Rightarrow> string" where
  "joinWith sep ss = (case ss of [] \<Rightarrow> [] | s # r \<Rightarrow> foldl (\<lambda>a b. a @ sep @ b) s r)"

text \<open>lodash \<open>get(o, path)\<close> for a path of one or two segments: a path that is itself a
  key of the object is read directly, otherwise the segments are followed.\<close>

definition lodashGet :: "jsval \<Rightarrow> string list \<Rightarrow> jsval" where
  "lodashGet v path =
     (if getProp v (joinWith ''.'' path) \<noteq> JUndefined then getProp v (joinWith ''.'' path)
      else foldl getProp v path)"

text \<open>Several steps, each of which may throw (\<open>None\<close>), each giving a list: the lists
  in order, unless one step throws.\<close>

fun collect :: "'a list option list \<Rightarrow> 'a list option" where
  "collect [] = Some []"
| "collect (None # r) = None"
| "collect (Some a # r) = (case collect r of None \<Rightarrow> None | Some b \<Rightarrow> Some (a @ b))"

text \<open>
  \<open>String(v)\<close>, as used by template strings, property keys and \<open>Number(v)\<close> on an object.
  The decimal text of a finite double is a function of the JavaScript engine and is a
  parameter \<open>ns\<close>. The elements of an array are joined with commas, \<open>null\<close> and
  \<open>undefined\<close> elements giving the empty string. An object uses the \<open>toString\<close> it
  inherits, unless it has a property of that name of its own: that one is not a function,
  and the conversion throws a \<open>TypeError\<close> (\<open>None\<close>).
\<close>

fun jsString :: "(rat \<Rightarrow> string) \<Rightarrow> jsval \<Rightarrow> string option"
  and elementStrings :: "(rat \<Rightarrow> string) \<Rightarrow> jsval list \<Rightarrow> string list option" where
  "jsString ns JUndefined = Some ''undefined''"
| "jsString ns JNull = Some ''null''"
| "jsString ns (JBool b) = Some (if b then ''true'' else ''false'')"
| "jsString ns (JNum n) =
     Some (case n of NaN \<Rightarrow> ''NaN'' | NegInf \<Rightarrow> ''-Infinity'' | PosInf \<Rightarrow> ''Infinity''
           | Fin r \<Rightarrow> ns r)"
| "jsString ns (JStr s) = Some s"
| "jsString ns (JArr xs) = map_option (joinWith '','') (elementStrings ns xs)"
| "jsString ns (JObj kvs) =
     (if map_of kvs ''toString'' = None then Some ''[object Object]'' else None)"
| "elementStrings ns [] = Some []"
| "elementStrings ns (x # xs) =
     (case (if x = JUndefined \<or> x = JNull then Some [] else jsString ns x) of
        None \<Rightarrow> None
      | Some s \<Rightarrow> map_option ((#) s) (elementStrings ns xs))"

section \<open>Strings: identifiers, numbers, trimming\<close>

definition lowerChar :: "char \<Rightarrow> char" where
  "lowerChar c =
     (case map_of (zip ''ABCDEFGHIJKLMNOPQRSTUVWXYZ'' ''abcdefghijklmnopqrstuvwxyz'') c of
        None \<Rightarrow> c
      | Some d \<Rightarrow> d)"

definition toLowerCase :: "string \<Rightarrow> string" where
  "toLowerCase s = map lowerChar s"

definition isDigit :: "char \<Rightarrow> bool" where
  "isDigit c = (c \<in> set ''0123456789'')"

definition isHexDigit :: "char \<Rightarrow> bool" where
  "isHexDigit c = (c \<in> set ''0123456789abcdefABCDEF'')"

definition digitValue :: "char \<Rightarrow> nat" where
  "digitValue c = of_char c - 48"

definition natOfDigits :: "string \<Rightarrow> nat" where
  "natOfDigits ds = foldl (\<lambda>a c. 10 * a + digitValue c) 0 ds"

text \<open>\<open>isHexadecimal\<close> of validator.js, the regular expression
  \<open>/^(0x|0h)?[0-9A-F]+$/i\<close>, and \<open>isMongoId\<close>: a hexadecimal string of length 24.\<close>

definition isHexDigits :: "string \<Rightarrow> bool" where
  "isHexDigits s = (s \<noteq> [] \<and> list_all isHexDigit s)"

definition isHexadecimal :: "string \<Rightarrow> bool" where
  "isHexadecimal s =
     (isHexDigits s \<or>
      (toLowerCase (take 2 s) = ''0x'' \<or> toLowerCase (take 2 s) = ''0h'') \<and>
        isHexDigits (drop 2 s))"

definition isMongoId :: "string \<Rightarrow> bool" where
  "isMongoId s = (isHexadecimal s \<and> length s = 24)"

text \<open>The cast of a string to an ObjectId, as \<open>findById\<close> and a path of type ObjectId
  do it for the strings that reach them in the handlers, which have length 24: 24
  hexadecimal digits are read without regard to case and give the id, whose text form is
  in lower case; any other string is a cast error (\<open>None\<close>).\<close>

definition castObjectId :: "string \<Rightarrow> string option" where
  "castObjectId s =
     (if length s = 24 \<and> list_all isHexDigit s then Some (toLowerCase s) else None)"

text \<open>A fresh ObjectId is generated by the driver when a document is constructed; the
  model draws it from a counter and prints 24 hexadecimal digits.\<close>

definition digitChar :: "nat \<Rightarrow> char" where
  "digitChar d = ''0123456789abcdef'' ! d"

fun hexOfNat :: "nat \<Rightarrow> nat \<Rightarrow> string" where
  "hexOfNat 0 n = []"
| "hexOfNat (Suc k) n = hexOfNat k (n div 16) @ [digitChar (n mod 16)]"

definition newObjectId :: "nat \<Rightarrow> string" where
  "newObjectId n = hexOfNat 24 n"

text \<open>\<open>isNumeric\<close> of validator.js with its default options: the regular expression
  \<open>^[+-]?([0-9]*[.])?[0-9]+$\<close>.\<close>

definition stripSign :: "string \<Rightarrow> string" where
  "stripSign s = (case s of [] \<Rightarrow> [] | c # r \<Rightarrow> if c = CHR ''+'' \<or> c = CHR ''-'' then r else s)"

definition isNumericStr :: "string \<Rightarrow> bool" where
  "isNumericStr s =
     (let u = stripSign s; a = takeWhile isDigit u; r = dropWhile isDigit u in
      case r of
        [] \<Rightarrow> a \<noteq> []
      | c # f \<Rightarrow> c = CHR ''.'' \<and> f \<noteq> [] \<and> list_all isDigit f)"

definition notEmpty :: "string \<Rightarrow> bool" where
  "notEmpty s = (s \<noteq> [])"

text \<open>\<open>String.prototype.trim\<close>.\<close>

definition isSpace :: "char \<Rightarrow> bool" where
  "isSpace c = (c \<in> set [CHR '' '', CHR 0x09, CHR 0x0A, CHR 0x0B, CHR 0x0C, CHR 0x0D])"

definition trim :: "string \<Rightarrow> string" where
  "trim s = rev (dropWhile isSpace (rev (dropWhile isSpace s)))"

section \<open>Stored documents and the state of the service\<close>

text \<open>
  The Mongoose schemas of \<open>models/Job.js\<close>, \<open>models/Application.js\<close> and
  \<open>models/Employer.js\<close>. \<open>job_id\<close>, \<open>app_id\<close> and \<open>emp_id\<close> are the \<open>_id\<close> fields; the
  Job schema has \<open>timestamps: true\<close>, which adds \<open>createdAt\<close> and \<open>updatedAt\<close>.
\<close>

record job =
  job_id :: string
  title :: string
  description :: string
  location :: string
  salaryMin :: jsnum
  salaryMax :: jsnum
  employerId :: string
  createdAt :: nat
  updatedAt :: nat

record application =
  app_id :: string
  candidateName :: string
  candidateEmail :: string
  jobId :: string
  applicationDate :: nat

record employer =
  emp_id :: string
  emp_name :: string
  email :: string
  password :: string

text \<open>The payload of a verified token, \<open>req.user\<close>: \<open>{id, email}\<close> as signed by login.\<close>

record user =
  uid :: string
  uemail :: string

text \<open>One call \<open>io.to(room).emit(event, payload)\<close>; the room is \<open>None\<close> when the lookup in
  \<open>employerSockets\<close> gave no socket id (\<open>undefined\<close>, or for a name inherited from
  \<open>Object.prototype\<close> a function): a room that no socket has joined.\<close>

record emission =
  room :: "string option"
  event :: string
  payload :: jsval

text \<open>
  The three collections, the process-local \<open>employerSockets\<close> object of \<open>server.js\<close> (its
  own properties in enumeration order), the sockets connected at the moment, the log of
  emitted events, the counter fresh ObjectIds are drawn from, the clock, and whether the
  database is unreachable (then every store operation throws).
\<close>

record state =
  employers :: "employer list"
  jobs :: "job list"
  applications :: "application list"
  employerSockets :: "(string \<times> string) list"
  connected :: "string list"
  emitted :: "emission list"
  nextId :: nat
  now :: nat
  storeDown :: bool

text \<open>
  The functions of libraries and of the JavaScript engine that the handlers call and
  whose code is outside the repository; the handlers take them as a parameter:
  the email grammar of validator.js; \<open>bcrypt.compare\<close> on two strings; \<open>jwt.sign\<close> and
  \<open>jwt.verify\<close> with the configured secret; the text index of the database;
  \<open>Number(s)\<close> on a string (the nearest double); \<open>String(x)\<close> on a finite double; the
  text express-validator hands to a validator for a value that is an object, or an array
  inside an array, or \<open>None\<close> when that conversion throws (releases differ for an object
  with a \<open>toString\<close> property of its own and for nested arrays); and whether Mongoose
  marks the nested path \<open>salaryRange\<close> of a loaded job as modified when it is assigned
  a value whose bounds are the stored ones (releases differ, and the handler re-assigns
  the path in every update).
\<close>

record lib =
  isEmail :: "string \<Rightarrow> bool"
  bcryptCompare :: "string \<Rightarrow> string \<Rightarrow> bool"
  jwtSign :: "user \<Rightarrow> nat \<Rightarrow> string"
  jwtVerify :: "string \<Rightarrow> user option"
  textMatch :: "string \<Rightarrow> job \<Rightarrow> bool"
  toNumber :: "string \<Rightarrow> jsnum"
  numberToString :: "rat \<Rightarrow> string"
  objectString :: "jsval \<Rightarrow> string option"
  rangeMarked :: "job \<Rightarrow> jsval \<Rightarrow> bool"

section \<open>Requests and responses\<close>

text \<open>A request as a handler receives it: the headers with their names in lower case,
  the id in the path (\<open>req.params.id\<close> or \<open>req.params.jobId\<close>), the parsed query string
  (a repeated parameter is an array, a bracketed one an object) and the parsed body.
  No cookie parser is installed, so \<open>req.cookies\<close> is \<open>undefined\<close>.\<close>

record request =
  headers :: "(string \<times> string) list"
  pathId :: string
  query :: "(string \<times> jsval) list"
  body :: "(string \<times> jsval) list"

text \<open>The list of \<open>select(...)\<close> in the search: the stored fields without \<open>updatedAt\<close>.\<close>

record jobView =
  v_id :: string
  v_title :: string
  v_description :: string
  v_location :: string
  v_salaryMin :: jsnum
  v_salaryMax :: jsnum
  v_employerId :: string
  v_createdAt :: nat

definition selectView :: "job \<Rightarrow> jobView" where
  "selectView j =
     \<lparr>v_id = job_id j, v_title = title j, v_description = description j,
      v_location = location j, v_salaryMin = salaryMin j, v_salaryMax = salaryMax j,
      v_employerId = employerId j, v_createdAt = createdAt j\<rparr>"

text \<open>
  The body of a response. A validation error is kept as the name of the field and the
  message. \<open>CaughtMessage\<close> is the body \<open>{error: err.message}\<close> of the update route, the
  text of the error that was caught. \<open>ErrorPage\<close> is the page of the default error
  handler of Express, which answers 500 when a middleware passes an exception on.
\<close>

datatype rbody =
    Errors "(string \<times> string) list"
  | ErrorMsg string
  | CaughtMessage
  | ErrorPage
  | Message string
  | Token string
  | JobJson job
  | JobsJson "jobView list"
  | ApplicationJson application

datatype response = Resp nat rbody

definition bodyField :: "request \<Rightarrow> string \<Rightarrow> jsval" where
  "bodyField req k = getProp (JObj (body req)) k"

definition queryField :: "request \<Rightarrow> string \<Rightarrow> jsval" where
  "queryField req k = getProp (JObj (query req)) k"

section \<open>express-validator chains\<close>

text \<open>
  A standard validator is run on the string form of a value: \<open>undefined\<close>, \<open>null\<close> and
  \<open>NaN\<close> become the empty string, a boolean, a number and a string their \<open>String\<close>; the
  text for an object or for an array is the library's.
\<close>

definition validatorString :: "lib \<Rightarrow> jsval \<Rightarrow> string option" where
  "validatorString L v =
     (case v of
        JUndefined \<Rightarrow> Some []
      | JNull \<Rightarrow> Some []
      | JNum n \<Rightarrow> if n = NaN then Some [] else jsString (numberToString L) v
      | JArr xs \<Rightarrow> objectString L v
      | JObj kvs \<Rightarrow> objectString L v
      | _ \<Rightarrow> jsString (numberToString L) v)"

text \<open>A validator applied to the value found at one location: an array is validated
  element by element (none for the empty array), and each failure is one error, the
  pair \<open>e\<close>. An exception of the conversion ends the validation (\<open>None\<close>).\<close>

definition elementsOf :: "jsval \<Rightarrow> jsval list" where
  "elementsOf v = (case v of JArr xs \<Rightarrow> xs | _ \<Rightarrow> [v])"

definition runValidator ::
  "lib \<Rightarrow> (string \<Rightarrow> bool) \<Rightarrow> string \<times> string \<Rightarrow> jsval \<Rightarrow> (string \<times> string) list option" where
  "runValidator L ok e v =
     collect (map (\<lambda>x. map_option (\<lambda>s. if ok s then [] else [e]) (validatorString L x))
                  (elementsOf v))"

text \<open>
  \<open>check(field)\<close> selects the field in the body, the cookies, the headers (under its
  name in lower case), the route parameters and the query. When the field is defined
  at one location or more, every defined instance is validated; when it is defined
  nowhere, one instance is, with the value \<open>undefined\<close>. \<open>ps\<close> is the \<open>req.params\<close> of the
  route.
\<close>

definition headersObject :: "request \<Rightarrow> jsval" where
  "headersObject req = JObj (map (\<lambda>kv. (fst kv, JStr (snd kv))) (headers req))"

definition fieldInstances :: "(string \<times> jsval) list \<Rightarrow> request \<Rightarrow> string list \<Rightarrow> jsval list" where
  "fieldInstances ps req path =
     (let everywhere =
            [lodashGet (JObj (body req)) path,
             JUndefined,
             lodashGet (headersObject req) (map toLowerCase path),
             lodashGet (JObj ps) path,
             lodashGet (JObj (query req)) path];
          defined = filter (\<lambda>v. v \<noteq> JUndefined) everywhere
      in if defined = [] then [JUndefined] else defined)"

text \<open>\<open>check(field).<validator>().withMessage(msg)\<close>: the errors of one chain.\<close>

definition checkField ::
  "lib \<Rightarrow> (string \<times> jsval) list \<Rightarrow> request \<Rightarrow> string list \<Rightarrow> (string \<Rightarrow> bool) \<Rightarrow> string \<Rightarrow>
   (string \<times> string) list option" where
  "checkField L ps req path ok msg =
     collect (map (runValidator L ok (joinWith ''.'' path, msg)) (fieldInstances ps req path))"

text \<open>\<open>check(field).optional().<validator>()\<close>: an instance that is \<open>undefined\<close> is
  skipped.\<close>

definition checkOptional ::
  "lib \<Rightarrow> (string \<times> jsval) list \<Rightarrow> request \<Rightarrow> string list \<Rightarrow> (string \<Rightarrow> bool) \<Rightarrow> string \<Rightarrow>
   (string \<times> string) list option" where
  "checkOptional L ps req path ok msg =
     collect (map (runValidator L ok (joinWith ''.'' path, msg))
                  (filter (\<lambda>v. v \<noteq> JUndefined) (fieldInstances ps req path)))"

text \<open>\<open>param(name).<validator>()\<close> and \<open>query(name).optional().<validator>()\<close> look at one
  location only.\<close>

definition checkParam ::
  "lib \<Rightarrow> (string \<times> jsval) list \<Rightarrow> string \<Rightarrow> (string \<Rightarrow> bool) \<Rightarrow> string \<Rightarrow>
   (string \<times> string) list option" where
  "checkParam L ps name ok msg = runValidator L ok (name, msg) (getProp (JObj ps) name)"

definition checkQueryOptional ::
  "lib \<Rightarrow> request \<Rightarrow> string \<Rightarrow> (string \<Rightarrow> bool) \<Rightarrow> string \<Rightarrow> (string \<times> string) list option" where
  "checkQueryOptional L req name ok msg =
     (if queryField req name = JUndefined then Some []
      else runValidator L ok (name, msg) (queryField req name))"

section \<open>Mongoose casts and the store\<close>

text \<open>The cast of a value to a path of type String: a number and a boolean are printed,
  an object with a non-empty string \<open>_id\<close> stands for that string, an array and any other
  object are cast errors (\<open>None\<close>).\<close>

definition castString :: "lib \<Rightarrow> jsval \<Rightarrow> string option" where
  "castString L v =
     (case v of
        JUndefined \<Rightarrow> None
      | JNull \<Rightarrow> None
      | JArr xs \<Rightarrow> None
      | JObj kvs \<Rightarrow>
          (case getProp v ''_id'' of
             JStr s \<Rightarrow> if s = [] then None else Some s
           | _ \<Rightarrow> None)
      | _ \<Rightarrow> jsString (numberToString L) v)"

text \<open>A path of type String marked \<open>required\<close>: \<open>save\<close> rejects a missing value, a value
  that cannot be cast, and the empty string.\<close>

definition requiredString :: "lib \<Rightarrow> jsval \<Rightarrow> string option" where
  "requiredString L v =
     (case castString L v of
        None \<Rightarrow> None
      | Some s \<Rightarrow> if s = [] then None else Some s)"

text \<open>A path of type Number marked \<open>required\<close>: strings and booleans are converted with
  \<open>Number\<close>, the empty string counts as missing, \<open>NaN\<close>, arrays and objects are cast
  errors.\<close>

definition requiredNumber :: "lib \<Rightarrow> jsval \<Rightarrow> jsnum option" where
  "requiredNumber L v =
     (case v of
        JNum n \<Rightarrow> if n = NaN then None else Some n
      | JStr s \<Rightarrow> if s = [] \<or> toNumber L s = NaN then None else Some (toNumber L s)
      | JBool b \<Rightarrow> Some (Fin (if b then 1 else 0))
      | _ \<Rightarrow> None)"

text \<open>Setting the nested path \<open>salaryRange\<close> to a value: an object replaces the nested
  document (its \<open>min\<close> and \<open>max\<close> are cast, and both are required); any other value is a
  cast error or leaves both bounds missing.\<close>

definition castSalaryRange :: "lib \<Rightarrow> jsval \<Rightarrow> (jsnum \<times> jsnum) option" where
  "castSalaryRange L v =
     (case v of
        JObj kvs \<Rightarrow>
          (case (requiredNumber L (getProp v ''min''), requiredNumber L (getProp v ''max'')) of
             (Some lo, Some hi) \<Rightarrow> Some (lo, hi)
           | _ \<Rightarrow> None)
      | _ \<Rightarrow> None)"

text \<open>\<open>Model.findById(id)\<close> after the cast of the id.\<close>

definition findById :: "job list \<Rightarrow> string \<Rightarrow> job option" where
  "findById js oid = find (\<lambda>j. job_id j = oid) js"


text \<open>\<open>doc.save()\<close> of a document that was loaded from the store: the stored document with
  its \<open>_id\<close> is replaced.\<close>

fun saveExisting :: "job \<Rightarrow> job list \<Rightarrow> job list" where
  "saveExisting d [] = []"
| "saveExisting d (j # js) = (if job_id j = job_id d then d # js else j # saveExisting d js)"

text \<open>
  The filter \<open>{ email }\<close> of \<open>Employer.findOne\<close> as it is cast for a path of type
  String: the list of the strings a stored email may equal, or a cast error (\<open>None\<close>).
  \<open>undefined\<close> and \<open>null\<close> match a missing email, which no stored employer has; an array
  stands for \<open>$in\<close> of its elements. An object without a string \<open>_id\<close> is a cast error
  here; as a document of query operators it does not get past \<open>isEmail\<close>.
\<close>

definition castEmail :: "lib \<Rightarrow> jsval \<Rightarrow> string list option" where
  "castEmail L v =
     (if v = JUndefined \<or> v = JNull then Some []
      else map_option (\<lambda>s. [s]) (castString L v))"

definition emailFilter :: "lib \<Rightarrow> jsval \<Rightarrow> string list option" where
  "emailFilter L v = (case v of JArr xs \<Rightarrow> collect (map (castEmail L) xs) | _ \<Rightarrow> castEmail L v)"

definition findOneByEmail :: "employer list \<Rightarrow> string list \<Rightarrow> employer option" where
  "findOneByEmail es l = find (\<lambda>x. email x \<in> set l) es"

section \<open>The presence registry and the socket events (\<open>server.js\<close>)\<close>

text \<open>
  \<open>employerSockets\<close> is a plain object. Its own keys are enumerated with the array
  indices first, in ascending numeric order, and then the other strings in the order they
  were created. An assignment to an existing key keeps the key's position; an assignment
  of a string to \<open>__proto__\<close> creates no property.
\<close>

definition isArrayIndex :: "string \<Rightarrow> bool" where
  "isArrayIndex k =
     (k \<noteq> [] \<and> list_all isDigit k \<and> (k = ''0'' \<or> hd k \<noteq> CHR ''0'') \<and>
      natOfDigits k < 2 ^ 32 - 1)"

fun insertIndex :: "string \<Rightarrow> 'v \<Rightarrow> (string \<times> 'v) list \<Rightarrow> (string \<times> 'v) list" where
  "insertIndex k v [] = [(k, v)]"
| "insertIndex k v ((k', v') # r) =
     (if isArrayIndex k' \<and> natOfDigits k' < natOfDigits k then (k', v') # insertIndex k v r
      else (k, v) # (k', v') # r)"

definition setProperty :: "(string \<times> 'v) list \<Rightarrow> string \<Rightarrow> 'v \<Rightarrow> (string \<times> 'v) list" where
  "setProperty obj k v =
     (if k = ''__proto__'' then obj
      else if map_of obj k \<noteq> None then map (\<lambda>(k', v'). if k' = k then (k', v) else (k', v')) obj
      else if isArrayIndex k then insertIndex k v obj
      else obj @ [(k, v)])"


text \<open>\<open>socket.on('register', (data) => ...)\<close>. The property key is \<open>String\<close> of the
  employer id; when that conversion throws, the assignment does not take place.\<close>

definition socketRegister :: "lib \<Rightarrow> string \<Rightarrow> jsval \<Rightarrow> state \<Rightarrow> state" where
  "socketRegister L sid d st =
     (if truthy (getProp d ''employerId'')
      then (case jsString (numberToString L) (getProp d ''employerId'') of
              None \<Rightarrow> st
            | Some k \<Rightarrow> st\<lparr>employerSockets := setProperty (employerSockets st) k sid\<rparr>)
      else st)"

text \<open>The loop of the disconnect handler: the entries in enumeration order, the first
  one whose value is the socket's id is deleted, and the loop breaks.\<close>

fun disconnectScan :: "string \<Rightarrow> (string \<times> string) list \<Rightarrow> (string \<times> string) list" where
  "disconnectScan sid [] = []"
| "disconnectScan sid ((e, s) # rest) =
     (if s = sid then rest else (e, s) # disconnectScan sid rest)"

text \<open>\<open>socket.on('disconnect', () => ...)\<close>.\<close>

definition socketDisconnect :: "string \<Rightarrow> state \<Rightarrow> state" where
  "socketDisconnect sid st =
     st\<lparr>employerSockets := disconnectScan sid (employerSockets st),
        connected := removeAll sid (connected st)\<rparr>"

text \<open>\<open>req.io.to(room).emit(event, payload)\<close>: the call returns at once; whether a socket
  receives the event is not reported to the caller.\<close>

definition ioEmit :: "string option \<Rightarrow> string \<Rightarrow> jsval \<Rightarrow> state \<Rightarrow> state" where
  "ioEmit r ev p st = st\<lparr>emitted := emitted st @ [\<lparr>room = r, event = ev, payload = p\<rparr>]\<rparr>"


section \<open>Authentication (\<open>middleware/auth.js\<close>, \<open>routes/auth.js\<close>)\<close>

text \<open>
  The middleware reads the header \<open>authorization\<close>, requires the prefix \<open>Bearer\<close> and a
  space, and verifies the text between the first and the second space; it answers 401
  or 403 itself, or passes the request on with the payload of the token as \<open>req.user\<close>.
\<close>

definition authenticateJWT :: "lib \<Rightarrow> request \<Rightarrow> response + user" where
  "authenticateJWT L req =
     (case map_of (headers req) ''authorization'' of
        None \<Rightarrow> Inl (Resp 401 (ErrorMsg ''Unauthorized: No token provided.''))
      | Some h \<Rightarrow>
          if h = [] \<or> take 7 h \<noteq> ''Bearer ''
          then Inl (Resp 401 (ErrorMsg ''Unauthorized: No token provided.''))
          else
            (case jwtVerify L (takeWhile (\<lambda>c. c \<noteq> CHR '' '') (drop 7 h)) of
               None \<Rightarrow> Inl (Resp 403 (ErrorMsg ''Forbidden: Invalid or expired token.''))
             | Some u \<Rightarrow> Inr u))"

text \<open>The validation chains of \<open>router.post('/login', ...)\<close>, and its handler. The route
  has no parameters. The handler reads \<open>email\<close> and \<open>password\<close> from the body;
  \<open>bcrypt.compare\<close> throws on a password that is not a string.\<close>

definition loginChecks :: "lib \<Rightarrow> request \<Rightarrow> (string \<times> string) list option" where
  "loginChecks L req =
     collect
       [checkField L [] req [''email''] (isEmail L) ''A valid email is required'',
        checkField L [] req [''password''] notEmpty ''Password is required'']"

definition login :: "lib \<Rightarrow> request \<Rightarrow> state \<Rightarrow> response" where
  "login L req st =
     (case loginChecks L req of
        None \<Rightarrow> Resp 500 ErrorPage
      | Some errors \<Rightarrow>
          if errors \<noteq> [] then Resp 400 (Errors errors)
          else if storeDown st then Resp 500 (ErrorMsg ''Internal Server Error'')
          else
            (case emailFilter L (bodyField req ''email'') of
               None \<Rightarrow> Resp 500 (ErrorMsg ''Internal Server Error'')
             | Some l \<Rightarrow>
                 (case findOneByEmail (employers st) l of
                    None \<Rightarrow> Resp 401 (ErrorMsg ''Invalid email or password'')
                  | Some emp \<Rightarrow>
                      (case bodyField req ''password'' of
                         JStr p \<Rightarrow>
                           if \<not> bcryptCompare L p (password emp)
                           then Resp 401 (ErrorMsg ''Invalid email or password'')
                           else Resp 200
                                  (Token (jwtSign L \<lparr>uid = emp_id emp, uemail = email emp\<rparr>
                                            (now st)))
                       | _ \<Rightarrow> Resp 500 (ErrorMsg ''Internal Server Error'')))))"

section \<open>Applications (\<open>routes/applications.js\<close>)\<close>

text \<open>\<open>new Application({ candidateName, candidateEmail, jobId })\<close> as \<open>save\<close> validates and
  stores it: the two strings are required, the id and the date are defaults.\<close>

definition newApplication :: "lib \<Rightarrow> state \<Rightarrow> jsval \<Rightarrow> jsval \<Rightarrow> string \<Rightarrow> application option" where
  "newApplication L st cn ce oid =
     (case (requiredString L cn, requiredString L ce) of
        (Some n, Some e) \<Rightarrow>
          Some \<lparr>app_id = newObjectId (nextId st), candidateName = n, candidateEmail = e,
                jobId = oid, applicationDate = now st\<rparr>
      | _ \<Rightarrow> None)"

definition applicationPayload :: "job \<Rightarrow> jsval \<Rightarrow> jsval \<Rightarrow> jsval" where
  "applicationPayload j cn ce =
     JObj [(''jobId'', JStr (job_id j)),
           (''candidate'', JObj [(''candidateName'', cn), (''candidateEmail'', ce)])]"

text \<open>The validation chains of \<open>router.post('/:jobId/apply', ...)\<close>, and its handler.\<close>

definition applyChecks :: "lib \<Rightarrow> request \<Rightarrow> (string \<times> string) list option" where
  "applyChecks L req =
     collect
       [checkParam L [(''jobId'', JStr (pathId req))] ''jobId'' isMongoId ''Invalid job ID'',
        checkField L [(''jobId'', JStr (pathId req))] req [''candidateName'']
          notEmpty ''Candidate name is required'',
        checkField L [(''jobId'', JStr (pathId req))] req [''candidateEmail'']
          (isEmail L) ''A valid candidate email is required'']"

definition submitApplication :: "lib \<Rightarrow> request \<Rightarrow> state \<Rightarrow> response \<times> state" where
  "submitApplication L req st =
     (case applyChecks L req of
        None \<Rightarrow> (Resp 500 ErrorPage, st)
      | Some errors \<Rightarrow>
          if errors \<noteq> [] then (Resp 400 (Errors errors), st)
          else if storeDown st then (Resp 500 (ErrorMsg ''Internal Server Error''), st)
          else
            (case castObjectId (pathId req) of
               None \<Rightarrow> (Resp 500 (ErrorMsg ''Internal Server Error''), st)
             | Some oid \<Rightarrow>
                 (case findById (jobs st) oid of
                    None \<Rightarrow> (Resp 404 (ErrorMsg ''Job not found''), st)
                  | Some j \<Rightarrow>
                      (case newApplication L st (bodyField req ''candidateName'')
                              (bodyField req ''candidateEmail'') oid of
                         None \<Rightarrow> (Resp 500 (ErrorMsg ''Internal Server Error''), st)
                       | Some a \<Rightarrow>
                           (Resp 201 (ApplicationJson a),
                            ioEmit (map_of (employerSockets st) (employerId j))
                              ''newApplication''
                              (applicationPayload j (bodyField req ''candidateName'')
                                 (bodyField req ''candidateEmail''))
                              (st\<lparr>applications := applications st @ [a],
                                  nextId := Suc (nextId st)\<rparr>))))))"

section \<open>Jobs (\<open>routes/jobs.js\<close>)\<close>

subsection \<open>Search\<close>

text \<open>The filter document handed to \<open>Job.find\<close>, one clause per key.\<close>

datatype clause =
    TextSearch string
  | SalaryMinGte jsnum
  | SalaryMaxLte jsnum

fun matches :: "lib \<Rightarrow> job \<Rightarrow> clause \<Rightarrow> bool" where
  "matches L j (TextSearch s) = textMatch L s j"
| "matches L j (SalaryMinGte x) = numLe x (salaryMin j)"
| "matches L j (SalaryMaxLte x) = numLe (salaryMax j) x"

definition findJobs :: "lib \<Rightarrow> clause list \<Rightarrow> job list \<Rightarrow> job list" where
  "findJobs L filters js = filter (\<lambda>j. list_all (matches L j) filters) js"

text \<open>\<open>x || ''\<close> inside the template string.\<close>

definition orEmpty :: "lib \<Rightarrow> jsval \<Rightarrow> string option" where
  "orEmpty L v = (if truthy v then jsString (numberToString L) v else Some [])"

text \<open>\<open>Number(v)\<close>: an array or an object is converted through its \<open>String\<close>.\<close>

definition jsNumber :: "lib \<Rightarrow> jsval \<Rightarrow> jsnum option" where
  "jsNumber L v =
     (case v of
        JUndefined \<Rightarrow> Some NaN
      | JNull \<Rightarrow> Some (Fin 0)
      | JBool b \<Rightarrow> Some (Fin (if b then 1 else 0))
      | JNum n \<Rightarrow> Some n
      | _ \<Rightarrow> map_option (toNumber L) (jsString (numberToString L) v))"

text \<open>The three steps that build \<open>filters\<close>; a conversion that throws ends the handler in
  its \<open>catch\<close> (\<open>None\<close>).\<close>

definition textClause :: "lib \<Rightarrow> request \<Rightarrow> clause list option" where
  "textClause L req =
     (if truthy (queryField req ''title'') \<or> truthy (queryField req ''location'')
      then (case (orEmpty L (queryField req ''title''), orEmpty L (queryField req ''location'')) of
              (Some a, Some b) \<Rightarrow> Some [TextSearch (trim (a @ '' '' @ b))]
            | _ \<Rightarrow> None)
      else Some [])"

definition minClause :: "lib \<Rightarrow> request \<Rightarrow> clause list option" where
  "minClause L req =
     (if truthy (queryField req ''minSalary'')
      then map_option (\<lambda>x. [SalaryMinGte x]) (jsNumber L (queryField req ''minSalary''))
      else Some [])"

definition maxClause :: "lib \<Rightarrow> request \<Rightarrow> clause list option" where
  "maxClause L req =
     (if truthy (queryField req ''maxSalary'')
      then map_option (\<lambda>x. [SalaryMaxLte x]) (jsNumber L (queryField req ''maxSalary''))
      else Some [])"

definition searchFilters :: "lib \<Rightarrow> request \<Rightarrow> clause list option" where
  "searchFilters L req = collect [textClause L req, minClause L req, maxClause L req]"

text \<open>\<open>Job.find\<close> casts the filter first: a bound that is \<open>NaN\<close> is a cast error.\<close>

definition castable :: "clause \<Rightarrow> bool" where
  "castable c = (c \<noteq> SalaryMinGte NaN \<and> c \<noteq> SalaryMaxLte NaN)"

text \<open>The validation chains of \<open>router.get('/', ...)\<close>, and its handler.\<close>

definition searchChecks :: "lib \<Rightarrow> request \<Rightarrow> (string \<times> string) list option" where
  "searchChecks L req =
     collect
       [checkQueryOptional L req ''minSalary'' isNumericStr ''minSalary must be a number'',
        checkQueryOptional L req ''maxSalary'' isNumericStr ''maxSalary must be a number'']"

definition searchJobs :: "lib \<Rightarrow> request \<Rightarrow> state \<Rightarrow> response" where
  "searchJobs L req st =
     (case searchChecks L req of
        None \<Rightarrow> Resp 500 ErrorPage
      | Some errors \<Rightarrow>
          if errors \<noteq> [] then Resp 400 (Errors errors)
          else
            (case searchFilters L req of
               None \<Rightarrow> Resp 500 (ErrorMsg ''Internal Server Error'')
             | Some filters \<Rightarrow>
                 if storeDown st \<or> \<not> list_all castable filters
                 then Resp 500 (ErrorMsg ''Internal Server Error'')
                 else Resp 200 (JobsJson (map selectView (findJobs L filters (jobs st))))))"

subsection \<open>Create\<close>

text \<open>\<open>req.user?.id\<close>.\<close>

definition userId :: "user option \<Rightarrow> jsval" where
  "userId u = (case u of None \<Rightarrow> JUndefined | Some x \<Rightarrow> JStr (uid x))"

text \<open>\<open>new Job({ title, description, location, salaryRange, employerId })\<close> as \<open>save\<close>
  validates and stores it, with both timestamps set to the time of the save.\<close>

definition newJob :: "lib \<Rightarrow> state \<Rightarrow> jsval \<Rightarrow> jsval \<Rightarrow> jsval \<Rightarrow> jsval \<Rightarrow> jsval \<Rightarrow> job option" where
  "newJob L st t d l sr e =
     (case (requiredString L t, requiredString L d, requiredString L l, castSalaryRange L sr,
            requiredString L e) of
        (Some t', Some d', Some l', Some (lo, hi), Some e') \<Rightarrow>
          Some \<lparr>job_id = newObjectId (nextId st), title = t', description = d', location = l',
                salaryMin = lo, salaryMax = hi, employerId = e', createdAt = now st,
                updatedAt = now st\<rparr>
      | _ \<Rightarrow> None)"

text \<open>The validation chains of \<open>router.post('/', ...)\<close>, and its handler for a request
  whose \<open>req.user\<close> is \<open>u\<close>. The route has no parameters.\<close>

definition createChecks :: "lib \<Rightarrow> request \<Rightarrow> (string \<times> string) list option" where
  "createChecks L req =
     collect
       [checkField L [] req [''title''] notEmpty ''Title is required'',
        checkField L [] req [''description''] notEmpty ''Description is required'',
        checkField L [] req [''location''] notEmpty ''Location is required'',
        checkField L [] req [''salaryRange'', ''min''] isNumericStr
          ''Minimum salary must be a number'',
        checkField L [] req [''salaryRange'', ''max''] isNumericStr
          ''Maximum salary must be a number'']"

definition createJob :: "lib \<Rightarrow> user option \<Rightarrow> request \<Rightarrow> state \<Rightarrow> response \<times> state" where
  "createJob L u req st =
     (case createChecks L req of
        None \<Rightarrow> (Resp 500 ErrorPage, st)
      | Some errors \<Rightarrow>
          if errors \<noteq> [] then (Resp 400 (Errors errors), st)
          else if \<not> truthy (userId u)
          then (Resp 403 (ErrorMsg ''Unauthorized: Employer ID missing.''), st)
          else if storeDown st
          then (Resp 500 (ErrorMsg ''Server error, could not create job.''), st)
          else
            (case newJob L st (bodyField req ''title'') (bodyField req ''description'')
                    (bodyField req ''location'') (bodyField req ''salaryRange'') (userId u) of
               None \<Rightarrow> (Resp 500 (ErrorMsg ''Server error, could not create job.''), st)
             | Some j \<Rightarrow>
                 (Resp 201 (JobJson j),
                  st\<lparr>jobs := jobs st @ [j], nextId := Suc (nextId st)\<rparr>)))"

text \<open>The route as it is mounted: \<open>authenticateJWT\<close> is commented out of the middleware
  list, and nothing else sets \<open>req.user\<close>.\<close>

definition postJobs :: "lib \<Rightarrow> request \<Rightarrow> state \<Rightarrow> response \<times> state" where
  "postJobs L req st = createJob L None req st"

subsection \<open>Update\<close>

text \<open>\<open>job.f = v || job.f\<close> followed by \<open>save\<close>, which casts and validates the path. The
  salary bounds of a stored document are numbers, so the old range always passes.\<close>

definition assignString :: "lib \<Rightarrow> jsval \<Rightarrow> string \<Rightarrow> string option" where
  "assignString L v old = requiredString L (if truthy v then v else JStr old)"

definition assignSalaryRange :: "lib \<Rightarrow> jsval \<Rightarrow> jsnum \<times> jsnum \<Rightarrow> (jsnum \<times> jsnum) option" where
  "assignSalaryRange L v old = (if truthy v then castSalaryRange L v else Some old)"

definition assignJob :: "lib \<Rightarrow> request \<Rightarrow> job \<Rightarrow> job option" where
  "assignJob L req j =
     (case (assignString L (bodyField req ''title'') (title j),
            assignString L (bodyField req ''description'') (description j),
            assignString L (bodyField req ''location'') (location j),
            assignSalaryRange L (bodyField req ''salaryRange'') (salaryMin j, salaryMax j)) of
        (Some t, Some d, Some l, Some (lo, hi)) \<Rightarrow>
          Some (j\<lparr>title := t, description := d, location := l, salaryMin := lo, salaryMax := hi\<rparr>)
      | _ \<Rightarrow> None)"

text \<open>
  \<open>save\<close> with \<open>timestamps: true\<close>: when the document is modified, \<open>updatedAt\<close> is set to
  the time of the save. An assignment of a value that differs from the stored one
  modifies the document; for the nested path see \<open>rangeMarked\<close>.
\<close>

definition modified :: "lib \<Rightarrow> request \<Rightarrow> job \<Rightarrow> job \<Rightarrow> bool" where
  "modified L req j j' =
     (title j' \<noteq> title j \<or> description j' \<noteq> description j \<or> location j' \<noteq> location j \<or>
      salaryMin j' \<noteq> salaryMin j \<or> salaryMax j' \<noteq> salaryMax j \<or>
      rangeMarked L j (bodyField req ''salaryRange''))"

definition stamp :: "lib \<Rightarrow> request \<Rightarrow> state \<Rightarrow> job \<Rightarrow> job \<Rightarrow> job" where
  "stamp L req st j j' = (if modified L req j j' then j'\<lparr>updatedAt := now st\<rparr> else j')"

text \<open>The validation chains of \<open>router.put('/:id', ...)\<close>, its handler, and the route
  behind \<open>authenticateJWT\<close>.\<close>

definition updateChecks :: "lib \<Rightarrow> request \<Rightarrow> (string \<times> string) list option" where
  "updateChecks L req =
     collect
       [checkParam L [(''id'', JStr (pathId req))] ''id'' isMongoId ''Invalid job ID'',
        checkOptional L [(''id'', JStr (pathId req))] req [''title''] notEmpty
          ''Title cannot be empty'',
        checkOptional L [(''id'', JStr (pathId req))] req [''description''] notEmpty
          ''Description cannot be empty'',
        checkOptional L [(''id'', JStr (pathId req))] req [''location''] notEmpty
          ''Location cannot be empty'',
        checkOptional L [(''id'', JStr (pathId req))] req [''salaryRange'', ''min'']
          isNumericStr ''Minimum salary must be a number'',
        checkOptional L [(''id'', JStr (pathId req))] req [''salaryRange'', ''max'']
          isNumericStr ''Maximum salary must be a number'']"

definition updateJob :: "lib \<Rightarrow> user \<Rightarrow> request \<Rightarrow> state \<Rightarrow> response \<times> state" where
  "updateJob L u req st =
     (case updateChecks L req of
        None \<Rightarrow> (Resp 500 ErrorPage, st)
      | Some errors \<Rightarrow>
          if errors \<noteq> [] then (Resp 400 (Errors errors), st)
          else if storeDown st then (Resp 500 CaughtMessage, st)
          else
            (case castObjectId (pathId req) of
               None \<Rightarrow> (Resp 500 CaughtMessage, st)
             | Some oid \<Rightarrow>
                 (case findById (jobs st) oid of
                    None \<Rightarrow> (Resp 404 (ErrorMsg ''Job not found''), st)
                  | Some j \<Rightarrow>
                      if employerId j \<noteq> uid u
                      then (Resp 403 (ErrorMsg
                              ''Forbidden: You are not authorized to modify this job posting.''),
                            st)
                      else
                        (case assignJob L req j of
                           None \<Rightarrow> (Resp 500 CaughtMessage, st)
                         | Some j' \<Rightarrow>
                             (Resp 200 (JobJson (stamp L req st j j')),
                              st\<lparr>jobs := saveExisting (stamp L req st j j') (jobs st)\<rparr>)))))"

definition putJob :: "lib \<Rightarrow> request \<Rightarrow> state \<Rightarrow> response \<times> state" where
  "putJob L req st =
     (case authenticateJWT L req of
        Inl r \<Rightarrow> (r, st)
      | Inr u \<Rightarrow> updateJob L u req st)"

subsection \<open>Delete\<close>




section \<open>Auxiliary notions for the statements\<close>

text \<open>The same request without one query parameter.\<close>

definition dropQuery :: "string \<Rightarrow> request \<Rightarrow> request" where
  "dropQuery k req = req\<lparr>query := filter (\<lambda>kv. fst kv \<noteq> k) (query req)\<rparr>"

text \<open>Sample data: one employer with one job posting, and stand-ins for the library
  functions: an email grammar, a password hash, a token signer and verifier, a text
  index, and number conversions that are exact on short decimal literals.\<close>

definition exampleJob :: job where
  "exampleJob =
     \<lparr>job_id = ''607d1b2f4f1c2c0015f3e2b5'', title = ''Software Engineer'',
      description = ''Develop and maintain web applications.'', location = ''New York'',
      salaryMin = Fin 50000, salaryMax = Fin 90000, employerId = ''67a7cfa24ac1ab925c2a1a7c'',
      createdAt = 1, updatedAt = 1\<rparr>"

definition exampleEmployer :: employer where
  "exampleEmployer =
     \<lparr>emp_id = ''67a7cfa24ac1ab925c2a1a7c'', emp_name = ''Acme Corp'',
      email = ''employer@example.com'', password = ''hash:password123''\<rparr>"

definition exampleState :: state where
  "exampleState =
     \<lparr>employers = [exampleEmployer], jobs = [exampleJob], applications = [],
      employerSockets = [], connected = [], emitted = [], nextId = 0, now = 2,
      storeDown = False\<rparr>"

definition exampleVerify :: "string \<Rightarrow> user option" where
  "exampleVerify t =
     (if t = ''token-acme''
      then Some \<lparr>uid = ''67a7cfa24ac1ab925c2a1a7c'', uemail = ''employer@example.com''\<rparr>
      else if t = ''token-other''
      then Some \<lparr>uid = ''67a7cfa24ac1ab925c2a1a7d'', uemail = ''other@example.com''\<rparr>
      else None)"

text \<open>The value of a decimal literal \<open>[+-]digits[.digits]\<close>, and the decimal text of a
  natural number.\<close>

definition decimalValue :: "string \<Rightarrow> jsnum" where
  "decimalValue s =
     (if isNumericStr s
      then (let u = stripSign s; a = takeWhile isDigit u; f = drop 1 (dropWhile isDigit u);
                m = (of_nat (natOfDigits (a @ f)) :: rat) / 10 ^ length f
            in Fin (if take 1 s = ''-'' then - m else m))
      else NaN)"

fun decimalOfNat :: "nat \<Rightarrow> string" where
  "decimalOfNat n = (if n < 10 then [digitChar n] else decimalOfNat (n div 10) @ [digitChar (n mod 10)])"

definition decimalText :: "rat \<Rightarrow> string" where
  "decimalText r = (if r < 0 then ''-'' else []) @ decimalOfNat (nat \<lfloor>\<bar>r\<bar>\<rfloor>)"

definition exampleLib :: lib where
  "exampleLib =
     \<lparr>isEmail = (\<lambda>s. CHR ''@'' \<in> set s),
      bcryptCompare = (\<lambda>p h. h = ''hash:'' @ p),
      jwtSign = (\<lambda>u t. ''jwt:'' @ uid u),
      jwtVerify = exampleVerify,
      textMatch = (\<lambda>s j. s = title j \<or> s = location j),
      toNumber = decimalValue,
      numberToString = decimalText,
      objectString = jsString decimalText,
      rangeMarked = (\<lambda>j v. False)\<rparr>"

definition applyRequest :: "string \<Rightarrow> (string \<times> jsval) list \<Rightarrow> request" where
  "applyRequest i b = \<lparr>headers = [], pathId = i, query = [], body = b\<rparr>"

definition bearerRequest :: "string \<Rightarrow> string \<Rightarrow> (string \<times> jsval) list \<Rightarrow> request" where
  "bearerRequest t i b =
     \<lparr>headers = [(''authorization'', ''Bearer '' @ t)], pathId = i, query = [], body = b\<rparr>"

definition searchRequest :: "(string \<times> jsval) list \<Rightarrow> request" where
  "searchRequest q = \<lparr>headers = [], pathId = [], query = q, body = []\<rparr>"

text \<open>A registry built by three \<open>register\<close> events: socket \<open>s1\<close> claims the employers
  \<open>e1\<close> and \<open>e2\<close>, socket \<open>s2\<close> claims the employer \<open>7\<close>, whose key is an array
  index and is enumerated first.\<close>

definition exampleRegistered :: state where
  "exampleRegistered =
     socketRegister exampleLib ''s1'' (JObj [(''employerId'', JStr ''e2'')])
       (socketRegister exampleLib ''s2'' (JObj [(''employerId'', JStr ''7'')])
          (socketRegister exampleLib ''s1'' (JObj [(''employerId'', JStr ''e1'')])
             exampleState))"


section \<open>Basic facts about the model\<close>

declare decimalOfNat.simps [simp del]

lemma collect_Nil: "collect xs = Some [] \<longleftrightarrow> (\<forall>x \<in> set xs. x = Some [])"
  by (induction xs rule: collect.induct) (auto split: option.splits)

lemma collect_single: "collect [x] = x"
  by (cases x) simp_all

lemma joinWith_single: "joinWith sep [s] = s"
  by (simp add: joinWith_def)

lemma lodashGet_single: "lodashGet v [k] = getProp v k"
  by (simp add: lodashGet_def joinWith_single)

lemma lodashGet_empty: "lodashGet (JObj []) path = (if path = [] then JObj [] else JUndefined)"
proof -
  have "foldl getProp JUndefined p = JUndefined" for p
    by (induction p) simp_all
  then show ?thesis
    by (cases path) (simp_all add: lodashGet_def)
qed

lemma body_in_fieldInstances:
  "lodashGet (JObj (body req)) path \<noteq> JUndefined \<Longrightarrow>
   lodashGet (JObj (body req)) path \<in> set (fieldInstances ps req path)"
  by (simp add: fieldInstances_def Let_def)

lemma runValidator_scalar:
  "runValidator L ok e (JStr s) = Some (if ok s then [] else [e])"
  "runValidator L ok e JUndefined = Some (if ok [] then [] else [e])"
  by (simp_all add: runValidator_def elementsOf_def validatorString_def)

text \<open>A chain without errors has accepted the string the body carries.\<close>

lemma checkField_body_string:
  assumes "checkField L ps req [k] ok msg = Some []" and "bodyField req k = JStr s"
  shows "ok s"
proof -
  have "lodashGet (JObj (body req)) [k] = JStr s"
    using assms(2) by (simp add: lodashGet_single bodyField_def)
  then have "JStr s \<in> set (fieldInstances ps req [k])"
    using body_in_fieldInstances[of req "[k]" ps] by simp
  then have "runValidator L ok (joinWith ''.'' [k], msg) (JStr s) = Some []"
    using assms(1) by (auto simp: checkField_def collect_Nil)
  then show ?thesis
    by (simp add: runValidator_scalar split: if_splits)
qed

lemma requiredString_JStr: "s \<noteq> [] \<Longrightarrow> requiredString L (JStr s) = Some s"
  by (simp add: requiredString_def castString_def)

lemma findById_Some: "findById js i = Some j \<Longrightarrow> job_id j = i \<and> j \<in> set js"
  by (auto simp: findById_def find_Some_iff)

lemma castObjectId_Some:
  "castObjectId s = Some oid \<Longrightarrow> oid = toLowerCase s \<and> length s = 24 \<and> list_all isHexDigit s"
  by (simp add: castObjectId_def split: if_splits)

lemma digitChar_inj:
  assumes "a < 16" and "b < 16" and "digitChar a = digitChar b"
  shows "a = b"
proof -
  have "distinct ''0123456789abcdef''" by simp
  moreover have "a < length ''0123456789abcdef''" "b < length ''0123456789abcdef''"
    using assms by simp_all
  ultimately show ?thesis
    using assms(3) unfolding digitChar_def by (simp only: nth_eq_iff_index_eq)
qed

lemma newObjectId_last: "newObjectId n = hexOfNat 23 (n div 16) @ [digitChar (n mod 16)]"
proof -
  have e: "(24::nat) = Suc 23" by simp
  show ?thesis unfolding newObjectId_def e by (rule hexOfNat.simps(2))
qed

lemma newObjectId_Suc_neq: "newObjectId (Suc n) \<noteq> newObjectId n"
proof
  assume "newObjectId (Suc n) = newObjectId n"
  then have "hexOfNat 23 (Suc n div 16) @ [digitChar (Suc n mod 16)] =
             hexOfNat 23 (n div 16) @ [digitChar (n mod 16)]"
    by (simp only: newObjectId_last)
  then have "digitChar (Suc n mod 16) = digitChar (n mod 16)"
    by (simp only: append1_eq_conv)
  moreover have "Suc n mod 16 < 16" "n mod 16 < 16"
    by simp_all
  ultimately have "Suc n mod 16 = n mod 16"
    by (rule digitChar_inj[rotated 2])
  then show False by (simp add: mod_Suc split: if_splits)
qed


text \<open>The sample data, field by field.\<close>

lemma exampleState_simps:
  "jobs exampleState = [exampleJob]" "applications exampleState = []"
  "employers exampleState = [exampleEmployer]" "employerSockets exampleState = []"
  "emitted exampleState = []" "nextId exampleState = 0" "now exampleState = 2"
  "\<not> storeDown exampleState" "connected exampleState = []"
  by (simp_all add: exampleState_def)

lemma exampleLib_simps:
  "isEmail exampleLib s = (CHR ''@'' \<in> set s)"
  "bcryptCompare exampleLib p h = (h = ''hash:'' @ p)"
  "jwtVerify exampleLib = exampleVerify"
  "textMatch exampleLib s j = (s = title j \<or> s = location j)"
  "toNumber exampleLib = decimalValue"
  "numberToString exampleLib = decimalText"
  "objectString exampleLib = jsString decimalText"
  "rangeMarked exampleLib j v = False"
  by (simp_all add: exampleLib_def)

lemma exampleJob_fields:
  "job_id exampleJob = ''607d1b2f4f1c2c0015f3e2b5''"
  "employerId exampleJob = ''67a7cfa24ac1ab925c2a1a7c''"
  "title exampleJob = ''Software Engineer''"
  "description exampleJob = ''Develop and maintain web applications.''"
  "location exampleJob = ''New York''"
  "salaryMin exampleJob = Fin 50000" "salaryMax exampleJob = Fin 90000"
  "createdAt exampleJob = 1" "updatedAt exampleJob = 1"
  by (simp_all add: exampleJob_def)

lemma isMongoId_examples:
  "isMongoId ''607d1b2f4f1c2c0015f3e2b5''" "isMongoId ''607D1B2F4F1C2C0015F3E2B5''"
  "isMongoId ''000000000000000000000000''" "isMongoId ''0x07d1b2f4f1c2c0015f3e2b''"
  by (simp_all add: isMongoId_def isHexadecimal_def isHexDigits_def isHexDigit_def
      toLowerCase_def lowerChar_def)

lemma castObjectId_examples:
  "castObjectId ''607d1b2f4f1c2c0015f3e2b5'' = Some ''607d1b2f4f1c2c0015f3e2b5''"
  "castObjectId ''607D1B2F4F1C2C0015F3E2B5'' = Some ''607d1b2f4f1c2c0015f3e2b5''"
  "castObjectId ''000000000000000000000000'' = Some ''000000000000000000000000''"
  "castObjectId ''0x07d1b2f4f1c2c0015f3e2b'' = None"
  by (simp_all add: castObjectId_def isHexDigit_def toLowerCase_def lowerChar_def)

lemma findById_examples:
  "findById [exampleJob] ''607d1b2f4f1c2c0015f3e2b5'' = Some exampleJob"
  "findById [exampleJob] ''000000000000000000000000'' = None"
  by (simp_all add: findById_def exampleJob_fields)

lemma applyRequest_simps:
  "headers (applyRequest i b) = []" "pathId (applyRequest i b) = i"
  "query (applyRequest i b) = []" "body (applyRequest i b) = b"
  "bodyField (applyRequest i b) k = getProp (JObj b) k"
  by (simp_all add: applyRequest_def bodyField_def)

text \<open>A request that carries its fields in the body only: each chain sees the one
  instance of the body.\<close>

lemma fieldInstances_body_only:
  assumes "headers req = []" and "query req = []" and "lodashGet (JObj ps) path = JUndefined"
    and "path \<noteq> []"
  shows "fieldInstances ps req path = [lodashGet (JObj (body req)) path]"
  using assms by (simp add: fieldInstances_def Let_def headersObject_def lodashGet_empty)

lemma applyChecks_applyRequest:
  "applyChecks L (applyRequest i b) =
     collect
       [runValidator L isMongoId (''jobId'', ''Invalid job ID'') (JStr i),
        runValidator L notEmpty (''candidateName'', ''Candidate name is required'')
          (getProp (JObj b) ''candidateName''),
        runValidator L (isEmail L) (''candidateEmail'', ''A valid candidate email is required'')
          (getProp (JObj b) ''candidateEmail'')]"
proof -
  have n: "fieldInstances [(''jobId'', JStr i)] (applyRequest i b) [''candidateName''] =
      [getProp (JObj b) ''candidateName'']"
    by (subst fieldInstances_body_only)
      (simp_all add: applyRequest_simps lodashGet_single)
  have e: "fieldInstances [(''jobId'', JStr i)] (applyRequest i b) [''candidateEmail''] =
      [getProp (JObj b) ''candidateEmail'']"
    by (subst fieldInstances_body_only)
      (simp_all add: applyRequest_simps lodashGet_single)
  show ?thesis
    by (simp add: applyChecks_def checkParam_def checkField_def n e applyRequest_simps
        joinWith_single collect_single)
qed

section \<open>Submitting an application\<close>

text \<open>The successful run of the submission handler, written out.\<close>

lemma submitApplication_created:
  assumes "applyChecks L req = Some []"
    and "\<not> storeDown st"
    and "castObjectId (pathId req) = Some oid"
    and "findById (jobs st) oid = Some j"
    and "requiredString L (bodyField req ''candidateName'') = Some n"
    and "requiredString L (bodyField req ''candidateEmail'') = Some e"
  shows "submitApplication L req st =
    (Resp 201 (ApplicationJson
       \<lparr>app_id = newObjectId (nextId st), candidateName = n, candidateEmail = e,
        jobId = oid, applicationDate = now st\<rparr>),
     st\<lparr>applications := applications st @
           [\<lparr>app_id = newObjectId (nextId st), candidateName = n, candidateEmail = e,
             jobId = oid, applicationDate = now st\<rparr>],
        nextId := Suc (nextId st),
        emitted := emitted st @
           [\<lparr>room = map_of (employerSockets st) (employerId j), event = ''newApplication'',
             payload = applicationPayload j (bodyField req ''candidateName'')
               (bodyField req ''candidateEmail'')\<rparr>]\<rparr>)"
  using assms by (simp add: submitApplication_def newApplication_def ioEmit_def)

text \<open>The chains of the submission, when they report no error, have accepted the
  strings of the body.\<close>

lemma applyChecks_body_strings:
  assumes "applyChecks L req = Some []"
  shows "bodyField req ''candidateName'' = JStr n \<Longrightarrow> n \<noteq> []"
    and "bodyField req ''candidateEmail'' = JStr e \<Longrightarrow> isEmail L e"
proof -
  from assms have
    c1: "checkField L [(''jobId'', JStr (pathId req))] req [''candidateName'']
          notEmpty ''Candidate name is required'' = Some []" and
    c2: "checkField L [(''jobId'', JStr (pathId req))] req [''candidateEmail'']
          (isEmail L) ''A valid candidate email is required'' = Some []"
    by (simp_all add: applyChecks_def collect_Nil)
  show "bodyField req ''candidateName'' = JStr n \<Longrightarrow> n \<noteq> []"
    using checkField_body_string[OF c1] by (simp add: notEmpty_def)
  show "bodyField req ''candidateEmail'' = JStr e \<Longrightarrow> isEmail L e"
    using checkField_body_string[OF c2] by simp
qed

text \<open>
  Claim C1. A submission whose validation chains report no error (the job id is
  well-formed, and the candidate name and email are accepted wherever the request carries
  them), whose job id is 24 hexadecimal digits that resolve to a stored job, and whose
  body holds the name and a non-empty email as strings, is answered 201 with the stored
  application; exactly that record is appended to the collection, its \<open>jobId\<close> is the id
  of the request (as an ObjectId, which is the \<open>_id\<close> of the job found) and its
  \<open>candidateEmail\<close> and \<open>candidateName\<close> are the strings of the request, unchanged.
\<close>

theorem submitApplication_persists:
  assumes "applyChecks L req = Some []"
    and "\<not> storeDown st"
    and "castObjectId (pathId req) = Some oid"
    and "findById (jobs st) oid = Some j"
    and "bodyField req ''candidateName'' = JStr n"
    and "bodyField req ''candidateEmail'' = JStr e" and "e \<noteq> []"
  shows "\<exists>a st'. submitApplication L req st = (Resp 201 (ApplicationJson a), st') \<and>
           applications st' = applications st @ [a] \<and>
           jobId a = toLowerCase (pathId req) \<and> jobId a = job_id j \<and>
           candidateEmail a = e \<and> candidateName a = n"
proof -
  have n: "n \<noteq> []"
    using applyChecks_body_strings(1)[OF assms(1) assms(5)] .
  have rn: "requiredString L (bodyField req ''candidateName'') = Some n"
    and re: "requiredString L (bodyField req ''candidateEmail'') = Some e"
    using assms(5,6,7) n by (simp_all add: requiredString_JStr)
  have idj: "job_id j = oid" and low: "oid = toLowerCase (pathId req)"
    using assms(3,4) by (simp_all add: findById_Some castObjectId_Some)
  show ?thesis
    using submitApplication_created[OF assms(1-4) rn re] idj low by simp
qed

theorem submitApplication_persists_witness:
  "applyChecks exampleLib
      (applyRequest ''607D1B2F4F1C2C0015F3E2B5''
         [(''candidateName'', JStr ''Ada''), (''candidateEmail'', JStr ''ada@example.com'')]) =
     Some [] \<and>
   castObjectId ''607D1B2F4F1C2C0015F3E2B5'' = Some ''607d1b2f4f1c2c0015f3e2b5'' \<and>
   findById (jobs exampleState) ''607d1b2f4f1c2c0015f3e2b5'' = Some exampleJob \<and>
   \<not> storeDown exampleState \<and>
   (\<exists>a st'. submitApplication exampleLib
        (applyRequest ''607D1B2F4F1C2C0015F3E2B5''
           [(''candidateName'', JStr ''Ada''), (''candidateEmail'', JStr ''ada@example.com'')])
        exampleState = (Resp 201 (ApplicationJson a), st') \<and>
      applications st' = [a] \<and> jobId a = ''607d1b2f4f1c2c0015f3e2b5'' \<and>
      candidateEmail a = ''ada@example.com'' \<and> candidateName a = ''Ada'')"
proof -
  let ?req = "applyRequest ''607D1B2F4F1C2C0015F3E2B5''
           [(''candidateName'', JStr ''Ada''), (''candidateEmail'', JStr ''ada@example.com'')]"
  have h1: "applyChecks exampleLib ?req = Some []"
    by (simp add: applyChecks_applyRequest runValidator_scalar isMongoId_examples notEmpty_def
        exampleLib_simps)
  have h2: "\<not> storeDown exampleState"
    by (simp add: exampleState_simps)
  have h3: "castObjectId (pathId ?req) = Some ''607d1b2f4f1c2c0015f3e2b5''"
    by (simp add: applyRequest_simps castObjectId_examples)
  have h4: "findById (jobs exampleState) ''607d1b2f4f1c2c0015f3e2b5'' = Some exampleJob"
    by (simp add: exampleState_simps findById_examples)
  have h5: "bodyField ?req ''candidateName'' = JStr ''Ada''"
    by (simp add: applyRequest_simps)
  have h6: "bodyField ?req ''candidateEmail'' = JStr ''ada@example.com''"
    by (simp add: applyRequest_simps)
  from submitApplication_persists[OF h1 h2 h3 h4 h5 h6] h1 h2 h3 h4
  show ?thesis
    by (simp add: applyRequest_simps exampleState_simps exampleJob_fields) blast
qed



lemma exampleRegistered_simps:
  "jobs exampleRegistered = [exampleJob]" "applications exampleRegistered = []"
  "employerSockets exampleRegistered = [(''7'', ''s2''), (''e1'', ''s1''), (''e2'', ''s1'')]"
  "\<not> storeDown exampleRegistered"
  by (simp_all add: exampleRegistered_def socketRegister_def exampleState_def setProperty_def
      isArrayIndex_def isDigit_def natOfDigits_def digitValue_def)




text \<open>
  Claim C6. Two successive submissions of the same request to an existing job, accepted
  by the validation chains, are both answered 201, and after the second one the
  collection holds two more records than before, with different \<open>_id\<close>s and with the
  candidate email and the job id of the request: no uniqueness is enforced.
\<close>

theorem duplicate_applications_persist:
  assumes "applyChecks L req = Some []"
    and "\<not> storeDown st"
    and "castObjectId (pathId req) = Some oid"
    and "findById (jobs st) oid = Some j"
    and "bodyField req ''candidateName'' = JStr n"
    and "bodyField req ''candidateEmail'' = JStr e" and "e \<noteq> []"
    and "submitApplication L req st = (r1, st1)"
    and "submitApplication L req (st1\<lparr>now := t\<rparr>) = (r2, st2)"
  shows "\<exists>a1 a2. r1 = Resp 201 (ApplicationJson a1) \<and> r2 = Resp 201 (ApplicationJson a2) \<and>
           applications st2 = applications st @ [a1, a2] \<and> a1 \<noteq> a2 \<and>
           app_id a1 \<noteq> app_id a2 \<and>
           candidateEmail a1 = e \<and> candidateEmail a2 = e \<and>
           jobId a1 = toLowerCase (pathId req) \<and> jobId a2 = toLowerCase (pathId req)"
proof -
  have n: "n \<noteq> []"
    using applyChecks_body_strings(1)[OF assms(1) assms(5)] .
  have rn: "requiredString L (bodyField req ''candidateName'') = Some n"
    and re: "requiredString L (bodyField req ''candidateEmail'') = Some e"
    using assms(5,6,7) n by (simp_all add: requiredString_JStr)
  have low: "oid = toLowerCase (pathId req)"
    using assms(3) by (simp add: castObjectId_Some)
  note first = submitApplication_created[OF assms(1-4) rn re]
  have st1: "jobs st1 = jobs st" "\<not> storeDown st1" "nextId st1 = Suc (nextId st)"
    "applications st1 = applications st @
       [\<lparr>app_id = newObjectId (nextId st), candidateName = n, candidateEmail = e,
         jobId = oid, applicationDate = now st\<rparr>]"
    using first assms(2,8) by auto
  have up: "\<not> storeDown (st1\<lparr>now := t\<rparr>)"
    and found: "findById (jobs (st1\<lparr>now := t\<rparr>)) oid = Some j"
    using st1 assms(4) by simp_all
  note second = submitApplication_created[OF assms(1) up assms(3) found rn re]
  show ?thesis
    using first second assms(8,9) st1 low newObjectId_Suc_neq[of "nextId st"]
    by auto
qed

theorem duplicate_applications_persist_witness:
  "\<exists>a1 a2 st1 st2.
     submitApplication exampleLib
       (applyRequest ''607d1b2f4f1c2c0015f3e2b5''
          [(''candidateName'', JStr ''Ada''), (''candidateEmail'', JStr ''ada@example.com'')])
       exampleState = (Resp 201 (ApplicationJson a1), st1) \<and>
     submitApplication exampleLib
       (applyRequest ''607d1b2f4f1c2c0015f3e2b5''
          [(''candidateName'', JStr ''Ada''), (''candidateEmail'', JStr ''ada@example.com'')])
       (st1\<lparr>now := 5\<rparr>) = (Resp 201 (ApplicationJson a2), st2) \<and>
     applications st2 = [a1, a2] \<and> a1 \<noteq> a2 \<and>
     candidateEmail a1 = ''ada@example.com'' \<and> candidateEmail a2 = ''ada@example.com'' \<and>
     jobId a1 = ''607d1b2f4f1c2c0015f3e2b5'' \<and> jobId a2 = ''607d1b2f4f1c2c0015f3e2b5''"
proof -
  let ?req = "applyRequest ''607d1b2f4f1c2c0015f3e2b5''
          [(''candidateName'', JStr ''Ada''), (''candidateEmail'', JStr ''ada@example.com'')]"
  obtain r1 st1 where s1: "submitApplication exampleLib ?req exampleState = (r1, st1)"
    by (cases "submitApplication exampleLib ?req exampleState") blast
  obtain r2 st2 where s2: "submitApplication exampleLib ?req (st1\<lparr>now := 5\<rparr>) = (r2, st2)"
    by (cases "submitApplication exampleLib ?req (st1\<lparr>now := 5\<rparr>)") blast
  have h1: "applyChecks exampleLib ?req = Some []"
    by (simp add: applyChecks_applyRequest runValidator_scalar isMongoId_examples notEmpty_def
        exampleLib_simps)
  have h2: "\<not> storeDown exampleState"
    by (simp add: exampleState_simps)
  have h3: "castObjectId (pathId ?req) = Some ''607d1b2f4f1c2c0015f3e2b5''"
    by (simp add: applyRequest_simps castObjectId_examples)
  have h4: "findById (jobs exampleState) ''607d1b2f4f1c2c0015f3e2b5'' = Some exampleJob"
    by (simp add: exampleState_simps findById_examples)
  have h5: "bodyField ?req ''candidateName'' = JStr ''Ada''"
    by (simp add: applyRequest_simps)
  have h6: "bodyField ?req ''candidateEmail'' = JStr ''ada@example.com''"
    by (simp add: applyRequest_simps)
  have low: "toLowerCase ''607d1b2f4f1c2c0015f3e2b5'' = ''607d1b2f4f1c2c0015f3e2b5''"
    using h3 by (simp add: applyRequest_simps castObjectId_def split: if_splits)
  from duplicate_applications_persist[OF h1 h2 h3 h4 h5 h6 _ s1 s2]
  obtain a1 a2 where "r1 = Resp 201 (ApplicationJson a1)" "r2 = Resp 201 (ApplicationJson a2)"
    "applications st2 = [a1, a2]" "a1 \<noteq> a2"
    "candidateEmail a1 = ''ada@example.com''" "candidateEmail a2 = ''ada@example.com''"
    "jobId a1 = ''607d1b2f4f1c2c0015f3e2b5''" "jobId a2 = ''607d1b2f4f1c2c0015f3e2b5''"
    by (auto simp: applyRequest_simps exampleState_simps low)
  with s1 s2 show ?thesis by blast
qed



section \<open>The presence registry\<close>

lemma disconnectScan_absent: "sid \<notin> snd ` set r \<Longrightarrow> disconnectScan sid r = r"
  by (induction r) auto

lemma disconnectScan_first:
  "sid \<notin> snd ` set pre \<Longrightarrow> disconnectScan sid (pre @ (e, sid) # post) = pre @ post"
  by (induction pre) auto

lemma disconnectScan_length: "length r \<le> Suc (length (disconnectScan sid r))"
  by (induction r) auto

text \<open>
  Claim C10. A disconnect removes at most one entry of the registry. When some entry
  holds the id of the disconnecting socket, the first such entry in enumeration order is
  the one removed, and every entry after it stays, also those that hold the same socket
  id; when no entry holds the id, the registry is unchanged.
\<close>

theorem disconnect_removes_first_match:
  "length (employerSockets st) \<le> Suc (length (employerSockets (socketDisconnect sid st))) \<and>
   (sid \<notin> snd ` set (employerSockets st) \<longrightarrow>
      employerSockets (socketDisconnect sid st) = employerSockets st) \<and>
   (employerSockets st = pre @ (e, sid) # post \<and> sid \<notin> snd ` set pre \<longrightarrow>
      employerSockets (socketDisconnect sid st) = pre @ post)"
proof (intro conjI impI)
  show "length (employerSockets st) \<le> Suc (length (employerSockets (socketDisconnect sid st)))"
    by (simp add: socketDisconnect_def disconnectScan_length)
next
  assume "sid \<notin> snd ` set (employerSockets st)"
  then show "employerSockets (socketDisconnect sid st) = employerSockets st"
    by (simp add: socketDisconnect_def disconnectScan_absent)
next
  assume "employerSockets st = pre @ (e, sid) # post \<and> sid \<notin> snd ` set pre"
  then show "employerSockets (socketDisconnect sid st) = pre @ post"
    by (simp add: socketDisconnect_def disconnectScan_first)
qed

theorem disconnect_removes_first_match_witness:
  "employerSockets exampleRegistered = [(''7'', ''s2''), (''e1'', ''s1''), (''e2'', ''s1'')] \<and>
   employerSockets (socketDisconnect ''s1'' exampleRegistered) =
     [(''7'', ''s2''), (''e2'', ''s1'')] \<and>
   map_of (employerSockets (socketDisconnect ''s1'' exampleRegistered)) ''e2'' = Some ''s1'' \<and>
   employerSockets (socketDisconnect ''s3'' exampleRegistered) =
     [(''7'', ''s2''), (''e1'', ''s1''), (''e2'', ''s1'')]"
  using
    disconnect_removes_first_match[of exampleRegistered "''s1''" "[(''7'', ''s2'')]" "''e1''"
      "[(''e2'', ''s1'')]"]
    disconnect_removes_first_match[of exampleRegistered "''s3''"]
  by (simp add: exampleRegistered_simps)

section \<open>Login\<close>

lemma loginChecks_applyRequest:
  "loginChecks L (applyRequest i b) =
     collect
       [runValidator L (isEmail L) (''email'', ''A valid email is required'')
          (getProp (JObj b) ''email''),
        runValidator L notEmpty (''password'', ''Password is required'')
          (getProp (JObj b) ''password'')]"
proof -
  have e: "fieldInstances [] (applyRequest i b) [''email''] = [getProp (JObj b) ''email'']"
    by (subst fieldInstances_body_only)
      (simp_all add: applyRequest_simps lodashGet_single)
  have p: "fieldInstances [] (applyRequest i b) [''password''] = [getProp (JObj b) ''password'']"
    by (subst fieldInstances_body_only)
      (simp_all add: applyRequest_simps lodashGet_single)
  show ?thesis
    by (simp add: loginChecks_def checkField_def e p joinWith_single collect_single)
qed

lemma emailFilter_JStr: "emailFilter L (JStr e) = Some [e]"
  by (simp add: emailFilter_def castEmail_def castString_def)

text \<open>With a password that is a string, a wrong password for a stored email and an
  email that belongs to no employer get the same answer.\<close>

lemma login_string_password:
  assumes "loginChecks L req = Some []" and "loginChecks L req' = Some []"
    and "\<not> storeDown st"
    and "bodyField req ''email'' = JStr e"
    and "findOneByEmail (employers st) [e] = Some emp"
    and "bodyField req ''password'' = JStr p"
    and "\<not> bcryptCompare L p (password emp)"
    and "bodyField req' ''email'' = JStr e'"
    and "findOneByEmail (employers st) [e'] = None"
  shows "login L req st = Resp 401 (ErrorMsg ''Invalid email or password'')"
    and "login L req' st = login L req st"
  using assms by (simp_all add: login_def emailFilter_JStr)

lemma decimalText_examples:
  "decimalText 12345 = ''12345''" "decimalText 60000 = ''60000''"
  "decimalText 90000 = ''90000''" "decimalText 0 = ''0''"
  by (simp_all add: decimalText_def decimalOfNat.simps digitChar_def)

text \<open>
  Claim C7 does not hold of the handler. A JSON number is a password that the
  validation chain accepts (its text is not empty). With the email of a stored employer
  the handler then calls \<open>bcrypt.compare\<close> on a value that is not a string, the call
  throws, and the request is answered 500; with an email that belongs to no employer the
  same password is answered 401. The two answers differ, so they tell the caller
  whether the email exists.
\<close>

theorem login_nonstring_password_reveals_email:
  assumes "loginChecks L req = Some []" and "loginChecks L req' = Some []"
    and "\<not> storeDown st"
    and "bodyField req ''email'' = JStr e"
    and "findOneByEmail (employers st) [e] = Some emp"
    and "bodyField req' ''email'' = JStr e'"
    and "findOneByEmail (employers st) [e'] = None"
    and "bodyField req ''password'' = JNum x"
    and "bodyField req' ''password'' = JNum x"
  shows "login L req st = Resp 500 (ErrorMsg ''Internal Server Error'') \<and>
         login L req' st = Resp 401 (ErrorMsg ''Invalid email or password'') \<and>
         login L req st \<noteq> login L req' st"
  using assms by (simp add: login_def emailFilter_JStr)

theorem login_nonstring_password_reveals_email_witness:
  "loginChecks exampleLib
     (applyRequest []
        [(''email'', JStr ''employer@example.com''), (''password'', JNum (Fin 12345))]) =
     Some [] \<and>
   loginChecks exampleLib
     (applyRequest []
        [(''email'', JStr ''nobody@example.com''), (''password'', JNum (Fin 12345))]) =
     Some [] \<and>
   findOneByEmail (employers exampleState) [''employer@example.com''] = Some exampleEmployer \<and>
   findOneByEmail (employers exampleState) [''nobody@example.com''] = None \<and>
   login exampleLib
     (applyRequest []
        [(''email'', JStr ''employer@example.com''), (''password'', JNum (Fin 12345))])
     exampleState = Resp 500 (ErrorMsg ''Internal Server Error'') \<and>
   login exampleLib
     (applyRequest []
        [(''email'', JStr ''nobody@example.com''), (''password'', JNum (Fin 12345))])
     exampleState = Resp 401 (ErrorMsg ''Invalid email or password'')"
proof -
  let ?req = "applyRequest []
     [(''email'', JStr ''employer@example.com''), (''password'', JNum (Fin 12345))]"
  let ?req' = "applyRequest []
     [(''email'', JStr ''nobody@example.com''), (''password'', JNum (Fin 12345))]"
  have c1: "loginChecks exampleLib ?req = Some []"
    and c2: "loginChecks exampleLib ?req' = Some []"
    by (simp_all add: loginChecks_applyRequest runValidator_scalar runValidator_def
        elementsOf_def validatorString_def notEmpty_def exampleLib_simps decimalText_examples)
  have h4: "bodyField ?req ''email'' = JStr ''employer@example.com''"
    and h6: "bodyField ?req' ''email'' = JStr ''nobody@example.com''"
    and h8: "bodyField ?req ''password'' = JNum (Fin 12345)"
    and h9: "bodyField ?req' ''password'' = JNum (Fin 12345)"
    by (simp_all add: applyRequest_simps)
  have h5: "findOneByEmail (employers exampleState) [''employer@example.com''] =
      Some exampleEmployer"
    and h7: "findOneByEmail (employers exampleState) [''nobody@example.com''] = None"
    by (simp_all add: findOneByEmail_def exampleState_simps exampleEmployer_def)
  from login_nonstring_password_reveals_email[OF c1 c2 exampleState_simps(8) h4 h5 h6 h7 h8 h9]
    c1 c2 h5 h7
  show ?thesis by simp
qed

section \<open>Searching jobs\<close>

lemma map_of_filter_key:
  "map_of (filter (\<lambda>kv. fst kv \<noteq> k) xs) k' = (if k' = k then None else map_of xs k')"
  by (induction xs) auto

lemma queryField_dropQuery:
  "queryField (dropQuery k req) k' = (if k' = k then JUndefined else queryField req k')"
  by (simp add: queryField_def dropQuery_def map_of_filter_key)

lemma isNumericStr_nonempty: "isNumericStr s \<Longrightarrow> s \<noteq> []"
  by (auto simp: isNumericStr_def stripSign_def)

lemma collect3:
  "collect [a, b, c] = Some fs \<longleftrightarrow>
     (\<exists>x y z. a = Some x \<and> b = Some y \<and> c = Some z \<and> fs = x @ y @ z)"
  by (cases a; cases b; cases c) auto

lemma findJobs_insert_clause:
  "findJobs L (a @ [c] @ b) js = filter (\<lambda>j. matches L j c) (findJobs L (a @ b) js)"
  by (auto simp: findJobs_def intro: filter_cong)

lemma selectView_filter_min:
  "map selectView (filter (\<lambda>j. numLe x (salaryMin j)) js) =
     filter (\<lambda>w. numLe x (v_salaryMin w)) (map selectView js)"
  by (induction js) (simp_all add: selectView_def)

lemma selectView_filter_max:
  "map selectView (filter (\<lambda>j. numLe (salaryMax j) x) js) =
     filter (\<lambda>w. numLe (v_salaryMax w) x) (map selectView js)"
  by (induction js) (simp_all add: selectView_def)

lemma checkQueryOptional_JStr:
  "queryField req k = JStr s \<Longrightarrow>
   checkQueryOptional L req k ok msg = Some (if ok s then [] else [(k, msg)])"
  by (simp add: checkQueryOptional_def runValidator_scalar)

lemma checkQueryOptional_dropQuery:
  "checkQueryOptional L (dropQuery k req) k' ok msg =
     (if k' = k then Some [] else checkQueryOptional L req k' ok msg)"
  by (simp add: checkQueryOptional_def queryField_dropQuery)

lemma textClause_dropQuery:
  "k \<noteq> ''title'' \<Longrightarrow> k \<noteq> ''location'' \<Longrightarrow> textClause L (dropQuery k req) = textClause L req"
  by (simp add: textClause_def queryField_dropQuery)

lemma minClause_dropQuery:
  "minClause L (dropQuery k req) = (if k = ''minSalary'' then Some [] else minClause L req)"
  by (simp add: minClause_def queryField_dropQuery)

lemma maxClause_dropQuery:
  "maxClause L (dropQuery k req) = (if k = ''maxSalary'' then Some [] else maxClause L req)"
  by (simp add: maxClause_def queryField_dropQuery)

lemma minClause_JStr:
  "queryField req ''minSalary'' = JStr s \<Longrightarrow> s \<noteq> [] \<Longrightarrow>
   minClause L req = Some [SalaryMinGte (toNumber L s)]"
  by (simp add: minClause_def jsNumber_def)

lemma maxClause_JStr:
  "queryField req ''maxSalary'' = JStr s \<Longrightarrow> s \<noteq> [] \<Longrightarrow>
   maxClause L req = Some [SalaryMaxLte (toNumber L s)]"
  by (simp add: maxClause_def jsNumber_def)

text \<open>What a 200 answer of the search implies, and when the search gives one.\<close>

lemma searchJobs_200D:
  "searchJobs L req st = Resp 200 (JobsJson js) \<Longrightarrow>
     searchChecks L req = Some [] \<and> \<not> storeDown st \<and>
     (\<exists>fs. searchFilters L req = Some fs \<and> list_all castable fs \<and>
            js = map selectView (findJobs L fs (jobs st)))"
  by (auto simp: searchJobs_def split: if_splits option.splits)

lemma searchJobs_200I:
  "searchChecks L req = Some [] \<Longrightarrow> \<not> storeDown st \<Longrightarrow> searchFilters L req = Some fs \<Longrightarrow>
   list_all castable fs \<Longrightarrow>
   searchJobs L req st = Resp 200 (JobsJson (map selectView (findJobs L fs (jobs st))))"
  by (simp add: searchJobs_def)

text \<open>The search with a \<open>minSalary\<close> that is a string, against the search without it.\<close>

lemma search_min_filter:
  assumes "searchJobs L req st = Resp 200 (JobsJson js)"
    and "queryField req ''minSalary'' = JStr s"
  shows "isNumericStr s \<and> toNumber L s \<noteq> NaN \<and>
     (\<exists>js0. searchJobs L (dropQuery ''minSalary'' req) st = Resp 200 (JobsJson js0) \<and>
        js = filter (\<lambda>w. numLe (toNumber L s) (v_salaryMin w)) js0)"
proof -
  from searchJobs_200D[OF assms(1)] obtain fs
    where chk: "searchChecks L req = Some []" and up: "\<not> storeDown st"
      and fs: "searchFilters L req = Some fs" and ok: "list_all castable fs"
      and js: "js = map selectView (findJobs L fs (jobs st))"
    by blast
  from chk have cmin: "checkQueryOptional L req ''minSalary'' isNumericStr
        ''minSalary must be a number'' = Some []"
    and cmax: "checkQueryOptional L req ''maxSalary'' isNumericStr
        ''maxSalary must be a number'' = Some []"
    by (simp_all add: searchChecks_def collect_Nil)
  from cmin assms(2) have num: "isNumericStr s"
    by (simp add: checkQueryOptional_JStr split: if_splits)
  then have ne: "s \<noteq> []" by (rule isNumericStr_nonempty)
  from fs obtain a b where a: "textClause L req = Some a" and b: "maxClause L req = Some b"
    and fsd: "fs = a @ [SalaryMinGte (toNumber L s)] @ b"
    by (auto simp: searchFilters_def collect3 minClause_JStr[OF assms(2) ne])
  from ok fsd have nan: "toNumber L s \<noteq> NaN" and okab: "list_all castable (a @ b)"
    by (auto simp: castable_def)
  have chk0: "searchChecks L (dropQuery ''minSalary'' req) = Some []"
    using cmax by (simp add: searchChecks_def checkQueryOptional_dropQuery)
  have fs0: "searchFilters L (dropQuery ''minSalary'' req) = Some (a @ b)"
    using a b
    by (simp add: searchFilters_def textClause_dropQuery minClause_dropQuery
        maxClause_dropQuery)
  have r0: "searchJobs L (dropQuery ''minSalary'' req) st =
      Resp 200 (JobsJson (map selectView (findJobs L (a @ b) (jobs st))))"
    using searchJobs_200I[OF chk0 up fs0 okab] .
  have "js = filter (\<lambda>w. numLe (toNumber L s) (v_salaryMin w))
                (map selectView (findJobs L (a @ b) (jobs st)))"
    unfolding js fsd findJobs_insert_clause by (simp add: selectView_filter_min)
  with r0 num nan show ?thesis by blast
qed

lemma search_max_filter:
  assumes "searchJobs L req st = Resp 200 (JobsJson js)"
    and "queryField req ''maxSalary'' = JStr s"
  shows "isNumericStr s \<and> toNumber L s \<noteq> NaN \<and>
     (\<exists>js0. searchJobs L (dropQuery ''maxSalary'' req) st = Resp 200 (JobsJson js0) \<and>
        js = filter (\<lambda>w. numLe (v_salaryMax w) (toNumber L s)) js0)"
proof -
  from searchJobs_200D[OF assms(1)] obtain fs
    where chk: "searchChecks L req = Some []" and up: "\<not> storeDown st"
      and fs: "searchFilters L req = Some fs" and ok: "list_all castable fs"
      and js: "js = map selectView (findJobs L fs (jobs st))"
    by blast
  from chk have cmin: "checkQueryOptional L req ''minSalary'' isNumericStr
        ''minSalary must be a number'' = Some []"
    and cmax: "checkQueryOptional L req ''maxSalary'' isNumericStr
        ''maxSalary must be a number'' = Some []"
    by (simp_all add: searchChecks_def collect_Nil)
  from cmax assms(2) have num: "isNumericStr s"
    by (simp add: checkQueryOptional_JStr split: if_splits)
  then have ne: "s \<noteq> []" by (rule isNumericStr_nonempty)
  from fs obtain a b where a: "textClause L req = Some a" and b: "minClause L req = Some b"
    and fsd: "fs = (a @ b) @ [SalaryMaxLte (toNumber L s)] @ []"
    by (auto simp: searchFilters_def collect3 maxClause_JStr[OF assms(2) ne])
  from ok fsd have nan: "toNumber L s \<noteq> NaN" and okab: "list_all castable ((a @ b) @ [])"
    by (auto simp: castable_def)
  have chk0: "searchChecks L (dropQuery ''maxSalary'' req) = Some []"
    using cmin by (simp add: searchChecks_def checkQueryOptional_dropQuery)
  have fs0: "searchFilters L (dropQuery ''maxSalary'' req) = Some ((a @ b) @ [])"
    using a b
    by (simp add: searchFilters_def textClause_dropQuery minClause_dropQuery
        maxClause_dropQuery)
  have r0: "searchJobs L (dropQuery ''maxSalary'' req) st =
      Resp 200 (JobsJson (map selectView (findJobs L ((a @ b) @ []) (jobs st))))"
    using searchJobs_200I[OF chk0 up fs0 okab] .
  have "js = filter (\<lambda>w. numLe (v_salaryMax w) (toNumber L s))
                (map selectView (findJobs L ((a @ b) @ []) (jobs st)))"
    unfolding js fsd findJobs_insert_clause by (simp add: selectView_filter_max)
  with r0 num nan show ?thesis by blast
qed

text \<open>Conversely: a numeric string whose number is not \<open>NaN\<close>, added to a search that
  gives a list, gives the list restricted by the bound.\<close>

lemma search_min_total:
  assumes "searchJobs L (dropQuery ''minSalary'' req) st = Resp 200 (JobsJson js0)"
    and "queryField req ''minSalary'' = JStr s"
    and "isNumericStr s" and "toNumber L s \<noteq> NaN"
  shows "searchJobs L req st =
     Resp 200 (JobsJson (filter (\<lambda>w. numLe (toNumber L s) (v_salaryMin w)) js0))"
proof -
  have ne: "s \<noteq> []" using assms(3) by (rule isNumericStr_nonempty)
  from searchJobs_200D[OF assms(1)] obtain fs
    where chk0: "searchChecks L (dropQuery ''minSalary'' req) = Some []"
      and up: "\<not> storeDown st"
      and fs0: "searchFilters L (dropQuery ''minSalary'' req) = Some fs"
      and ok0: "list_all castable fs"
      and js0: "js0 = map selectView (findJobs L fs (jobs st))"
    by blast
  from fs0 obtain a b where a: "textClause L req = Some a" and b: "maxClause L req = Some b"
    and fsd: "fs = a @ b"
    by (auto simp: searchFilters_def collect3 textClause_dropQuery minClause_dropQuery
        maxClause_dropQuery)
  have chk: "searchChecks L req = Some []"
    using chk0 assms(2,3)
    by (simp add: searchChecks_def collect_Nil checkQueryOptional_dropQuery
        checkQueryOptional_JStr)
  have fs: "searchFilters L req = Some (a @ [SalaryMinGte (toNumber L s)] @ b)"
    using a b by (simp add: searchFilters_def minClause_JStr[OF assms(2) ne])
  have ok: "list_all castable (a @ [SalaryMinGte (toNumber L s)] @ b)"
    using ok0 fsd assms(4) by (simp add: castable_def)
  show ?thesis
    unfolding searchJobs_200I[OF chk up fs ok] js0 fsd findJobs_insert_clause
    by (simp add: selectView_filter_min)
qed

lemma search_max_total:
  assumes "searchJobs L (dropQuery ''maxSalary'' req) st = Resp 200 (JobsJson js0)"
    and "queryField req ''maxSalary'' = JStr s"
    and "isNumericStr s" and "toNumber L s \<noteq> NaN"
  shows "searchJobs L req st =
     Resp 200 (JobsJson (filter (\<lambda>w. numLe (v_salaryMax w) (toNumber L s)) js0))"
proof -
  have ne: "s \<noteq> []" using assms(3) by (rule isNumericStr_nonempty)
  from searchJobs_200D[OF assms(1)] obtain fs
    where chk0: "searchChecks L (dropQuery ''maxSalary'' req) = Some []"
      and up: "\<not> storeDown st"
      and fs0: "searchFilters L (dropQuery ''maxSalary'' req) = Some fs"
      and ok0: "list_all castable fs"
      and js0: "js0 = map selectView (findJobs L fs (jobs st))"
    by blast
  from fs0 obtain a b where a: "textClause L req = Some a" and b: "minClause L req = Some b"
    and fsd: "fs = (a @ b) @ []"
    by (auto simp: searchFilters_def collect3 textClause_dropQuery minClause_dropQuery
        maxClause_dropQuery)
  have chk: "searchChecks L req = Some []"
    using chk0 assms(2,3)
    by (simp add: searchChecks_def collect_Nil checkQueryOptional_dropQuery
        checkQueryOptional_JStr)
  have fs: "searchFilters L req = Some ((a @ b) @ [SalaryMaxLte (toNumber L s)] @ [])"
    using a b by (simp add: searchFilters_def maxClause_JStr[OF assms(2) ne])
  have ok: "list_all castable ((a @ b) @ [SalaryMaxLte (toNumber L s)] @ [])"
    using ok0 fsd assms(4) by (simp add: castable_def)
  show ?thesis
    unfolding searchJobs_200I[OF chk up fs ok] js0 fsd findJobs_insert_clause
    by (simp add: selectView_filter_max)
qed

lemma decimalValue_examples:
  "decimalValue ''60000'' = Fin 60000" "decimalValue ''50000'' = Fin 50000"
  "decimalValue ''80000'' = Fin 80000" "decimalValue ''100000'' = Fin 100000"
  by (simp_all add: decimalValue_def isNumericStr_def stripSign_def isDigit_def natOfDigits_def
      digitValue_def)

lemma isNumericStr_examples:
  "isNumericStr ''60000''" "isNumericStr ''90000''" "isNumericStr ''50000''"
  "isNumericStr ''80000''" "isNumericStr ''12345''"
  by (simp_all add: isNumericStr_def stripSign_def isDigit_def)

text \<open>
  Claim C5. Whenever a search returns a list and the query has a \<open>minSalary\<close>
  parameter (a string), the parameter is numeric, and the list consists of exactly the
  jobs that the same search without that parameter returns and whose stored
  \<open>salaryRange.min\<close> is at least \<open>Number(minSalary)\<close>, the double the handler compares
  with; symmetrically, with a \<open>maxSalary\<close> parameter it consists of exactly the jobs of
  the search without it whose stored \<open>salaryRange.max\<close> is at most \<open>Number(maxSalary)\<close>.
  Conversely, when the search without the parameter returns a list and the parameter is
  a numeric string whose number is not \<open>NaN\<close>, the search with it returns that list
  restricted by the bound.
\<close>

theorem search_salary_bounds:
  "(searchJobs L req st = Resp 200 (JobsJson js) \<and> queryField req ''minSalary'' = JStr s \<longrightarrow>
      isNumericStr s \<and> toNumber L s \<noteq> NaN \<and>
      (\<exists>js0. searchJobs L (dropQuery ''minSalary'' req) st = Resp 200 (JobsJson js0) \<and>
         js = filter (\<lambda>w. numLe (toNumber L s) (v_salaryMin w)) js0)) \<and>
   (searchJobs L req st = Resp 200 (JobsJson js) \<and> queryField req ''maxSalary'' = JStr s' \<longrightarrow>
      isNumericStr s' \<and> toNumber L s' \<noteq> NaN \<and>
      (\<exists>js0. searchJobs L (dropQuery ''maxSalary'' req) st = Resp 200 (JobsJson js0) \<and>
         js = filter (\<lambda>w. numLe (v_salaryMax w) (toNumber L s')) js0)) \<and>
   (searchJobs L (dropQuery ''minSalary'' req) st = Resp 200 (JobsJson js0) \<and>
      queryField req ''minSalary'' = JStr s \<and> isNumericStr s \<and> toNumber L s \<noteq> NaN \<longrightarrow>
      searchJobs L req st =
        Resp 200 (JobsJson (filter (\<lambda>w. numLe (toNumber L s) (v_salaryMin w)) js0))) \<and>
   (searchJobs L (dropQuery ''maxSalary'' req) st = Resp 200 (JobsJson js0) \<and>
      queryField req ''maxSalary'' = JStr s' \<and> isNumericStr s' \<and> toNumber L s' \<noteq> NaN \<longrightarrow>
      searchJobs L req st =
        Resp 200 (JobsJson (filter (\<lambda>w. numLe (v_salaryMax w) (toNumber L s')) js0)))"
proof (intro conjI)
  show "searchJobs L req st = Resp 200 (JobsJson js) \<and> queryField req ''minSalary'' = JStr s \<longrightarrow>
      isNumericStr s \<and> toNumber L s \<noteq> NaN \<and>
      (\<exists>js0. searchJobs L (dropQuery ''minSalary'' req) st = Resp 200 (JobsJson js0) \<and>
         js = filter (\<lambda>w. numLe (toNumber L s) (v_salaryMin w)) js0)"
    using search_min_filter by blast
next
  show "searchJobs L req st = Resp 200 (JobsJson js) \<and> queryField req ''maxSalary'' = JStr s' \<longrightarrow>
      isNumericStr s' \<and> toNumber L s' \<noteq> NaN \<and>
      (\<exists>js0. searchJobs L (dropQuery ''maxSalary'' req) st = Resp 200 (JobsJson js0) \<and>
         js = filter (\<lambda>w. numLe (v_salaryMax w) (toNumber L s')) js0)"
    using search_max_filter by blast
next
  show "searchJobs L (dropQuery ''minSalary'' req) st = Resp 200 (JobsJson js0) \<and>
      queryField req ''minSalary'' = JStr s \<and> isNumericStr s \<and> toNumber L s \<noteq> NaN \<longrightarrow>
      searchJobs L req st =
        Resp 200 (JobsJson (filter (\<lambda>w. numLe (toNumber L s) (v_salaryMin w)) js0))"
    using search_min_total by blast
next
  show "searchJobs L (dropQuery ''maxSalary'' req) st = Resp 200 (JobsJson js0) \<and>
      queryField req ''maxSalary'' = JStr s' \<and> isNumericStr s' \<and> toNumber L s' \<noteq> NaN \<longrightarrow>
      searchJobs L req st =
        Resp 200 (JobsJson (filter (\<lambda>w. numLe (v_salaryMax w) (toNumber L s')) js0))"
    using search_max_total by blast
qed

lemma search_base_example:
  "searchJobs exampleLib (searchRequest []) exampleState =
     Resp 200 (JobsJson [selectView exampleJob])"
  by (simp add: searchJobs_def searchChecks_def checkQueryOptional_def queryField_def
      searchRequest_def searchFilters_def textClause_def minClause_def maxClause_def
      findJobs_def exampleState_simps)

lemma dropQuery_searchRequest:
  "dropQuery k (searchRequest [(k, v)]) = searchRequest []"
  by (simp add: dropQuery_def searchRequest_def)

lemma queryField_searchRequest: "queryField (searchRequest [(k, v)]) k = v"
  by (simp add: queryField_def searchRequest_def)

theorem search_salary_bounds_witness:
  "salaryMin exampleJob = Fin 50000 \<and> salaryMax exampleJob = Fin 90000 \<and>
   searchJobs exampleLib (searchRequest []) exampleState =
     Resp 200 (JobsJson [selectView exampleJob]) \<and>
   toNumber exampleLib ''60000'' = Fin 60000 \<and>
   searchJobs exampleLib (searchRequest [(''minSalary'', JStr ''60000'')]) exampleState =
     Resp 200 (JobsJson []) \<and>
   searchJobs exampleLib (searchRequest [(''minSalary'', JStr ''50000'')]) exampleState =
     Resp 200 (JobsJson [selectView exampleJob]) \<and>
   toNumber exampleLib ''80000'' = Fin 80000 \<and>
   searchJobs exampleLib (searchRequest [(''maxSalary'', JStr ''80000'')]) exampleState =
     Resp 200 (JobsJson [])"
proof -
  let ?v = "selectView exampleJob"
  have v: "v_salaryMin ?v = Fin 50000" "v_salaryMax ?v = Fin 90000"
    by (simp_all add: selectView_def exampleJob_fields)
  have n: "toNumber exampleLib ''60000'' = Fin 60000" "toNumber exampleLib ''50000'' = Fin 50000"
    "toNumber exampleLib ''80000'' = Fin 80000"
    by (simp_all add: exampleLib_simps decimalValue_examples)
  have r1: "searchJobs exampleLib (searchRequest [(''minSalary'', JStr ''60000'')]) exampleState =
      Resp 200 (JobsJson [])"
    using search_salary_bounds[of exampleLib "searchRequest [(''minSalary'', JStr ''60000'')]"
        exampleState "[]" "''60000''" "[]" "[?v]"]
    by (simp add: dropQuery_searchRequest queryField_searchRequest search_base_example
        isNumericStr_examples n v)
  have r2: "searchJobs exampleLib (searchRequest [(''minSalary'', JStr ''50000'')]) exampleState =
      Resp 200 (JobsJson [?v])"
    using search_salary_bounds[of exampleLib "searchRequest [(''minSalary'', JStr ''50000'')]"
        exampleState "[]" "''50000''" "[]" "[?v]"]
    by (simp add: dropQuery_searchRequest queryField_searchRequest search_base_example
        isNumericStr_examples n v)
  have r3: "searchJobs exampleLib (searchRequest [(''maxSalary'', JStr ''80000'')]) exampleState =
      Resp 200 (JobsJson [])"
    using search_salary_bounds[of exampleLib "searchRequest [(''maxSalary'', JStr ''80000'')]"
        exampleState "[]" "[]" "''80000''" "[?v]"]
    by (simp add: dropQuery_searchRequest queryField_searchRequest search_base_example
        isNumericStr_examples n v)
  show ?thesis
    using r1 r2 r3 n by (simp add: search_base_example exampleJob_fields)
qed

section \<open>Creating a job\<close>

lemma createChecks_applyRequest:
  "createChecks L (applyRequest i b) =
     collect
       [runValidator L notEmpty (''title'', ''Title is required'') (getProp (JObj b) ''title''),
        runValidator L notEmpty (''description'', ''Description is required'')
          (getProp (JObj b) ''description''),
        runValidator L notEmpty (''location'', ''Location is required'')
          (getProp (JObj b) ''location''),
        runValidator L isNumericStr (''salaryRange.min'', ''Minimum salary must be a number'')
          (lodashGet (JObj b) [''salaryRange'', ''min'']),
        runValidator L isNumericStr (''salaryRange.max'', ''Maximum salary must be a number'')
          (lodashGet (JObj b) [''salaryRange'', ''max''])]"
proof -
  have f: "fieldInstances [] (applyRequest i b) path = [lodashGet (JObj b) path]"
    if "path \<noteq> []" for path
    using that
    by (subst fieldInstances_body_only) (simp_all add: applyRequest_simps lodashGet_empty)
  show ?thesis
    by (simp add: createChecks_def checkField_def f lodashGet_single joinWith_def collect_single)
qed

lemma createChecks_example:
  "createChecks exampleLib (applyRequest []
     [(''title'', JStr ''Data Engineer''), (''description'', JStr ''Build pipelines.''),
      (''location'', JStr ''Berlin''),
      (''salaryRange'', JObj [(''min'', JNum (Fin 60000)), (''max'', JNum (Fin 90000))])]) =
   Some []"
  by (simp add: createChecks_applyRequest runValidator_scalar runValidator_def elementsOf_def
      validatorString_def notEmpty_def lodashGet_def joinWith_def exampleLib_simps
      decimalText_examples isNumericStr_examples)

lemma createChecks_example_bad:
  "createChecks exampleLib (applyRequest [] [(''title'', JStr ''Data Engineer'')]) =
     Some [(''description'', ''Description is required''),
           (''location'', ''Location is required''),
           (''salaryRange.min'', ''Minimum salary must be a number''),
           (''salaryRange.max'', ''Maximum salary must be a number'')]"
  by (simp add: createChecks_applyRequest runValidator_scalar notEmpty_def lodashGet_def
      joinWith_def isNumericStr_def stripSign_def)

text \<open>
  Claim C8, as amended. On the mounted route no identity is attached to the request
  (\<open>authenticateJWT\<close> is commented out, and nothing else sets \<open>req.user\<close>), and the
  handler refuses a request without an employer id. A create-job request is therefore
  never answered 201 and never stores a job: it is answered 400 with the list of
  violations when a validation chain reports an error, 403 when the chains report none
  (valid input), and 500 by the error handler of the framework when a chain throws.
\<close>

theorem postJobs_requires_identity:
  "snd (postJobs L req st) = st \<and>
   fst (postJobs L req st) =
     (case createChecks L req of
        None \<Rightarrow> Resp 500 ErrorPage
      | Some es \<Rightarrow>
          if es = [] then Resp 403 (ErrorMsg ''Unauthorized: Employer ID missing.'')
          else Resp 400 (Errors es)) \<and>
   (\<forall>b. fst (postJobs L req st) \<noteq> Resp 201 b)"
proof -
  have anonymous: "\<not> truthy (userId None)"
    by (simp add: userId_def)
  show ?thesis
  proof (cases "createChecks L req")
    case None
    then show ?thesis
      by (simp add: postJobs_def createJob_def)
  next
    case (Some es)
    show ?thesis
    proof (cases "es = []")
      case True
      with Some anonymous show ?thesis
        by (simp add: postJobs_def createJob_def)
    next
      case False
      with Some show ?thesis
        by (simp add: postJobs_def createJob_def)
    qed
  qed
qed

theorem postJobs_requires_identity_witness:
  "fst (postJobs exampleLib (applyRequest [] [(''title'', JStr ''Data Engineer'')]) exampleState) =
     Resp 400 (Errors
       [(''description'', ''Description is required''), (''location'', ''Location is required''),
        (''salaryRange.min'', ''Minimum salary must be a number''),
        (''salaryRange.max'', ''Maximum salary must be a number'')]) \<and>
   fst (postJobs exampleLib (applyRequest []
     [(''title'', JStr ''Data Engineer''), (''description'', JStr ''Build pipelines.''),
      (''location'', JStr ''Berlin''),
      (''salaryRange'', JObj [(''min'', JNum (Fin 60000)), (''max'', JNum (Fin 90000))])])
     exampleState) = Resp 403 (ErrorMsg ''Unauthorized: Employer ID missing.'') \<and>
   jobs (snd (postJobs exampleLib (applyRequest []
     [(''title'', JStr ''Data Engineer''), (''description'', JStr ''Build pipelines.''),
      (''location'', JStr ''Berlin''),
      (''salaryRange'', JObj [(''min'', JNum (Fin 60000)), (''max'', JNum (Fin 90000))])])
     exampleState)) = [exampleJob]"
  using
    postJobs_requires_identity[of exampleLib "applyRequest [] [(''title'', JStr ''Data Engineer'')]"
      exampleState]
    postJobs_requires_identity[of exampleLib "applyRequest []
     [(''title'', JStr ''Data Engineer''), (''description'', JStr ''Build pipelines.''),
      (''location'', JStr ''Berlin''),
      (''salaryRange'', JObj [(''min'', JNum (Fin 60000)), (''max'', JNum (Fin 90000))])]"
      exampleState]
  by (simp add: createChecks_example createChecks_example_bad exampleState_simps)

text \<open>The claim as stated fails: a create-job request with valid input, sent without
  authentication, is answered 403 and nothing is stored.\<close>

theorem postJobs_unauthenticated_counterexample:
  "createChecks exampleLib (applyRequest []
     [(''title'', JStr ''Data Engineer''), (''description'', JStr ''Build pipelines.''),
      (''location'', JStr ''Berlin''),
      (''salaryRange'', JObj [(''min'', JNum (Fin 60000)), (''max'', JNum (Fin 90000))])]) =
     Some [] \<and>
   postJobs exampleLib (applyRequest []
     [(''title'', JStr ''Data Engineer''), (''description'', JStr ''Build pipelines.''),
      (''location'', JStr ''Berlin''),
      (''salaryRange'', JObj [(''min'', JNum (Fin 60000)), (''max'', JNum (Fin 90000))])])
     exampleState =
   (Resp 403 (ErrorMsg ''Unauthorized: Employer ID missing.''), exampleState)"
  by (simp add: createChecks_example postJobs_def createJob_def userId_def)

section \<open>Updating and deleting a job\<close>

lemma saveExisting_found:
  "find (\<lambda>x. job_id x = k) js = Some j \<Longrightarrow> job_id d = k \<Longrightarrow>
     find (\<lambda>x. job_id x = k) (saveExisting d js) = Some d"
  by (induction js) (auto split: if_splits)

lemma findById_saveExisting:
  "findById js i = Some j \<Longrightarrow> job_id d = job_id j \<Longrightarrow> findById (saveExisting d js) i = Some d"
  using saveExisting_found[of i js j d] findById_Some[of js i j]
  by (simp add: findById_def)

lemma map_job_id_saveExisting: "map job_id (saveExisting d js) = map job_id js"
  by (induction js) auto

lemma saveExisting_others:
  "filter (\<lambda>x. job_id x \<noteq> job_id d) (saveExisting d js) = filter (\<lambda>x. job_id x \<noteq> job_id d) js"
  by (induction js) auto






lemma updateJob_found:
  assumes "updateChecks L req = Some []" and "\<not> storeDown st"
    and "castObjectId (pathId req) = Some oid"
    and "findById (jobs st) oid = Some j"
  shows "updateJob L u req st =
     (if employerId j \<noteq> uid u
      then (Resp 403 (ErrorMsg
              ''Forbidden: You are not authorized to modify this job posting.''), st)
      else (case assignJob L req j of
              None \<Rightarrow> (Resp 500 CaughtMessage, st)
            | Some j' \<Rightarrow>
                (Resp 200 (JobJson (stamp L req st j j')),
                 st\<lparr>jobs := saveExisting (stamp L req st j j') (jobs st)\<rparr>)))"
  using assms by (simp add: updateJob_def)


lemma assignString_falsy: "\<not> truthy v \<Longrightarrow> assignString L v old = Some s \<Longrightarrow> s = old"
  by (simp add: assignString_def requiredString_def castString_def split: if_splits)

lemma assignJob_SomeD:
  assumes "assignJob L req j = Some j'"
  shows "job_id j' = job_id j" and "employerId j' = employerId j"
    and "assignString L (bodyField req ''title'') (title j) = Some (title j')"
    and "assignString L (bodyField req ''description'') (description j) = Some (description j')"
    and "assignString L (bodyField req ''location'') (location j) = Some (location j')"
    and "assignSalaryRange L (bodyField req ''salaryRange'') (salaryMin j, salaryMax j) =
           Some (salaryMin j', salaryMax j')"
    and "createdAt j' = createdAt j" and "updatedAt j' = updatedAt j"
  using assms by (auto simp: assignJob_def split: option.splits prod.splits)

lemma stamp_simps:
  "job_id (stamp L req st j j') = job_id j'" "employerId (stamp L req st j j') = employerId j'"
  "title (stamp L req st j j') = title j'" "description (stamp L req st j j') = description j'"
  "location (stamp L req st j j') = location j'" "salaryMin (stamp L req st j j') = salaryMin j'"
  "salaryMax (stamp L req st j j') = salaryMax j'" "createdAt (stamp L req st j j') = createdAt j'"
  "updatedAt (stamp L req st j j') = (if modified L req j j' then now st else updatedAt j')"
  by (simp_all add: stamp_def)

lemma putJob_cases:
  assumes "putJob L req st = (r, st')"
    and "castObjectId (pathId req) = Some oid"
    and "findById (jobs st) oid = Some j"
  shows "st' = st \<or>
     (\<exists>j'. assignJob L req j = Some j' \<and> r = Resp 200 (JobJson (stamp L req st j j')) \<and>
           st' = st\<lparr>jobs := saveExisting (stamp L req st j j') (jobs st)\<rparr>)"
  using assms
  by (auto simp: putJob_def updateJob_def split: sum.splits if_splits option.splits)

lemma authenticateJWT_bearer:
  "CHR '' '' \<notin> set t \<Longrightarrow>
     authenticateJWT L (bearerRequest t i b) =
       (case jwtVerify L t of
          None \<Rightarrow> Inl (Resp 403 (ErrorMsg ''Forbidden: Invalid or expired token.''))
        | Some u \<Rightarrow> Inr u)"
proof -
  assume "CHR '' '' \<notin> set t"
  then have tw: "takeWhile (\<lambda>c. c \<noteq> CHR '' '') t = t"
    by (auto simp: takeWhile_eq_all_conv)
  show ?thesis
    by (simp add: authenticateJWT_def bearerRequest_def tw)
qed

lemma bearerRequest_simps:
  "pathId (bearerRequest t i b) = i" "bodyField (bearerRequest t i b) k = getProp (JObj b) k"
  "query (bearerRequest t i b) = []" "body (bearerRequest t i b) = b"
  "headersObject (bearerRequest t i b) = JObj [(''authorization'', JStr (''Bearer '' @ t))]"
  by (simp_all add: bearerRequest_def bodyField_def headersObject_def)

lemma exampleVerify_simps:
  "exampleVerify ''token-acme'' =
     Some \<lparr>uid = ''67a7cfa24ac1ab925c2a1a7c'', uemail = ''employer@example.com''\<rparr>"
  "exampleVerify ''token-other'' =
     Some \<lparr>uid = ''67a7cfa24ac1ab925c2a1a7d'', uemail = ''other@example.com''\<rparr>"
  by (simp_all add: exampleVerify_def)

lemma exampleAuth:
  "authenticateJWT exampleLib (bearerRequest ''token-acme'' i b) =
     Inr \<lparr>uid = ''67a7cfa24ac1ab925c2a1a7c'', uemail = ''employer@example.com''\<rparr>"
  "authenticateJWT exampleLib (bearerRequest ''token-other'' i b) =
     Inr \<lparr>uid = ''67a7cfa24ac1ab925c2a1a7d'', uemail = ''other@example.com''\<rparr>"
  by (simp_all add: authenticateJWT_bearer exampleLib_simps exampleVerify_simps)

text \<open>A request that carries the token and has no query: each chain of the update
  sees the one instance of the body.\<close>

lemma fieldInstances_bearerRequest:
  assumes "path = [k] \<or> path = [k, k']"
    and "toLowerCase (joinWith ''.'' path) \<noteq> ''authorization''"
    and "toLowerCase k \<noteq> ''authorization''"
    and "joinWith ''.'' path \<noteq> p" and "k \<noteq> p"
  shows "fieldInstances [(p, JStr i)] (bearerRequest t i b) path = [lodashGet (JObj b) path]"
proof -
  have j: "joinWith ''.'' (map toLowerCase path) = toLowerCase (joinWith ''.'' path)"
    using assms(1) by (auto simp: joinWith_def toLowerCase_def lowerChar_def)
  have h: "lodashGet (headersObject (bearerRequest t i b)) (map toLowerCase path) = JUndefined"
    using assms(1,2,3) by (auto simp: lodashGet_def j bearerRequest_simps)
  have q: "lodashGet (JObj [(p, JStr i)]) path = JUndefined"
    using assms(1,4,5) by (auto simp: lodashGet_def)
  have e: "lodashGet (JObj []) path = JUndefined"
    using assms(1) by (auto simp: lodashGet_empty)
  show ?thesis
    by (simp add: fieldInstances_def Let_def bearerRequest_simps(3,4) h q e)
qed

lemma checkOptional_bearerRequest:
  assumes "path = [k] \<or> path = [k, k']"
    and "toLowerCase (joinWith ''.'' path) \<noteq> ''authorization''"
    and "toLowerCase k \<noteq> ''authorization''"
    and "joinWith ''.'' path \<noteq> p" and "k \<noteq> p"
  shows "checkOptional L [(p, JStr i)] (bearerRequest t i b) path ok msg =
     (if lodashGet (JObj b) path = JUndefined then Some []
      else runValidator L ok (joinWith ''.'' path, msg) (lodashGet (JObj b) path))"
  by (simp add: checkOptional_def fieldInstances_bearerRequest[OF assms] collect_single)

lemma updateChecks_bearerRequest:
  "updateChecks L (bearerRequest t i b) =
     collect
       [runValidator L isMongoId (''id'', ''Invalid job ID'') (JStr i),
        if getProp (JObj b) ''title'' = JUndefined then Some []
        else runValidator L notEmpty (''title'', ''Title cannot be empty'')
               (getProp (JObj b) ''title''),
        if getProp (JObj b) ''description'' = JUndefined then Some []
        else runValidator L notEmpty (''description'', ''Description cannot be empty'')
               (getProp (JObj b) ''description''),
        if getProp (JObj b) ''location'' = JUndefined then Some []
        else runValidator L notEmpty (''location'', ''Location cannot be empty'')
               (getProp (JObj b) ''location''),
        if lodashGet (JObj b) [''salaryRange'', ''min''] = JUndefined then Some []
        else runValidator L isNumericStr
               (''salaryRange.min'', ''Minimum salary must be a number'')
               (lodashGet (JObj b) [''salaryRange'', ''min'']),
        if lodashGet (JObj b) [''salaryRange'', ''max''] = JUndefined then Some []
        else runValidator L isNumericStr
               (''salaryRange.max'', ''Maximum salary must be a number'')
               (lodashGet (JObj b) [''salaryRange'', ''max''])]"
proof -
  have t: "checkOptional L [(''id'', JStr i)] (bearerRequest t i b) [''title''] ok msg =
     (if getProp (JObj b) ''title'' = JUndefined then Some []
      else runValidator L ok (''title'', msg) (getProp (JObj b) ''title''))" for ok msg
    by (subst checkOptional_bearerRequest[where k = "''title''" and k' = "[]"])
      (simp_all add: joinWith_def toLowerCase_def lowerChar_def lodashGet_def)
  have d: "checkOptional L [(''id'', JStr i)] (bearerRequest t i b) [''description''] ok msg =
     (if getProp (JObj b) ''description'' = JUndefined then Some []
      else runValidator L ok (''description'', msg) (getProp (JObj b) ''description''))"
    for ok msg
    by (subst checkOptional_bearerRequest[where k = "''description''" and k' = "[]"])
      (simp_all add: joinWith_def toLowerCase_def lowerChar_def lodashGet_def)
  have l: "checkOptional L [(''id'', JStr i)] (bearerRequest t i b) [''location''] ok msg =
     (if getProp (JObj b) ''location'' = JUndefined then Some []
      else runValidator L ok (''location'', msg) (getProp (JObj b) ''location''))" for ok msg
    by (subst checkOptional_bearerRequest[where k = "''location''" and k' = "[]"])
      (simp_all add: joinWith_def toLowerCase_def lowerChar_def lodashGet_def)
  have lo: "checkOptional L [(''id'', JStr i)] (bearerRequest t i b) [''salaryRange'', ''min'']
       ok msg =
     (if lodashGet (JObj b) [''salaryRange'', ''min''] = JUndefined then Some []
      else runValidator L ok (''salaryRange.min'', msg)
             (lodashGet (JObj b) [''salaryRange'', ''min'']))" for ok msg
    by (subst checkOptional_bearerRequest[where k = "''salaryRange''" and k' = "''min''"])
      (simp_all add: joinWith_def toLowerCase_def lowerChar_def)
  have hi: "checkOptional L [(''id'', JStr i)] (bearerRequest t i b) [''salaryRange'', ''max'']
       ok msg =
     (if lodashGet (JObj b) [''salaryRange'', ''max''] = JUndefined then Some []
      else runValidator L ok (''salaryRange.max'', msg)
             (lodashGet (JObj b) [''salaryRange'', ''max'']))" for ok msg
    by (subst checkOptional_bearerRequest[where k = "''salaryRange''" and k' = "''max''"])
      (simp_all add: joinWith_def toLowerCase_def lowerChar_def)
  show ?thesis
    by (simp add: updateChecks_def checkParam_def bearerRequest_simps(1) t d l lo hi)
qed

lemma decimalText_examples2:
  "decimalText 70000 = ''70000''" "decimalText 95000 = ''95000''"
  by (simp_all add: decimalText_def decimalOfNat.simps digitChar_def)

lemma isNumericStr_examples2: "isNumericStr ''70000''" "isNumericStr ''95000''"
  by (simp_all add: isNumericStr_def stripSign_def isDigit_def)

lemma exampleUpdate_checks:
  "updateChecks exampleLib (bearerRequest t ''607d1b2f4f1c2c0015f3e2b5''
     [(''title'', JStr ''Senior Engineer''),
      (''salaryRange'', JObj [(''min'', JNum (Fin 70000)), (''max'', JNum (Fin 95000))])]) =
     Some []"
  "updateChecks exampleLib (bearerRequest t ''607d1b2f4f1c2c0015f3e2b5''
     [(''title'', JNum (Fin 0)), (''description'', JStr ''Maintain services.'')]) = Some []"
  "updateChecks exampleLib (bearerRequest t ''607d1b2f4f1c2c0015f3e2b5''
     [(''title'', JStr [])]) = Some [(''title'', ''Title cannot be empty'')]"
  by (simp_all add: updateChecks_bearerRequest runValidator_scalar runValidator_def
      elementsOf_def validatorString_def notEmpty_def lodashGet_def joinWith_def
      isMongoId_examples exampleLib_simps decimalText_examples decimalText_examples2
      isNumericStr_examples2)

lemma exampleUpdate_assign:
  "assignJob exampleLib (bearerRequest t ''607d1b2f4f1c2c0015f3e2b5''
     [(''title'', JStr ''Senior Engineer''),
      (''salaryRange'', JObj [(''min'', JNum (Fin 70000)), (''max'', JNum (Fin 95000))])])
     exampleJob =
   Some (exampleJob\<lparr>title := ''Senior Engineer'', salaryMin := Fin 70000,
           salaryMax := Fin 95000\<rparr>)"
  "assignJob exampleLib (bearerRequest t ''607d1b2f4f1c2c0015f3e2b5''
     [(''title'', JNum (Fin 0)), (''description'', JStr ''Maintain services.'')]) exampleJob =
   Some (exampleJob\<lparr>description := ''Maintain services.''\<rparr>)"
  by (simp_all add: assignJob_def assignString_def assignSalaryRange_def requiredString_def
      castString_def castSalaryRange_def requiredNumber_def bearerRequest_simps exampleJob_def)

lemma exampleUpdate_stamp:
  "stamp exampleLib (bearerRequest t ''607d1b2f4f1c2c0015f3e2b5''
     [(''title'', JStr ''Senior Engineer''),
      (''salaryRange'', JObj [(''min'', JNum (Fin 70000)), (''max'', JNum (Fin 95000))])])
     exampleState exampleJob
     (exampleJob\<lparr>title := ''Senior Engineer'', salaryMin := Fin 70000, salaryMax := Fin 95000\<rparr>) =
   exampleJob\<lparr>title := ''Senior Engineer'', salaryMin := Fin 70000, salaryMax := Fin 95000,
     updatedAt := 2\<rparr>"
  "stamp exampleLib (bearerRequest t ''607d1b2f4f1c2c0015f3e2b5''
     [(''title'', JNum (Fin 0)), (''description'', JStr ''Maintain services.'')])
     exampleState exampleJob (exampleJob\<lparr>description := ''Maintain services.''\<rparr>) =
   exampleJob\<lparr>description := ''Maintain services.'', updatedAt := 2\<rparr>"
  by (simp_all add: stamp_def modified_def exampleJob_def exampleState_simps)




text \<open>
  Claim C9, as amended. Whatever an update request does, the document found under the
  request's id before is found under it afterwards with the same \<open>_id\<close>, the same
  \<open>employerId\<close> and the same \<open>createdAt\<close>; each of \<open>title\<close>, \<open>description\<close>, \<open>location\<close>
  and \<open>salaryRange\<close> whose value in the body is absent or falsy has its prior stored
  value; \<open>updatedAt\<close>, which no request body sets, has its prior value or the time of the
  save, and it has the time of the save whenever one of the four fields has changed;
  every other document of the collection, and everything else in the state, is unchanged.
\<close>

theorem update_frame:
  assumes "putJob L req st = (r, st')"
    and "castObjectId (pathId req) = Some oid"
    and "findById (jobs st) oid = Some j"
  shows "\<exists>j'. findById (jobs st') oid = Some j' \<and>
           job_id j' = job_id j \<and> employerId j' = employerId j \<and>
           createdAt j' = createdAt j \<and>
           (\<not> truthy (bodyField req ''title'') \<longrightarrow> title j' = title j) \<and>
           (\<not> truthy (bodyField req ''description'') \<longrightarrow> description j' = description j) \<and>
           (\<not> truthy (bodyField req ''location'') \<longrightarrow> location j' = location j) \<and>
           (\<not> truthy (bodyField req ''salaryRange'') \<longrightarrow>
              salaryMin j' = salaryMin j \<and> salaryMax j' = salaryMax j) \<and>
           (updatedAt j' = updatedAt j \<or> updatedAt j' = now st) \<and>
           (title j' \<noteq> title j \<or> description j' \<noteq> description j \<or>
            location j' \<noteq> location j \<or> salaryMin j' \<noteq> salaryMin j \<or>
            salaryMax j' \<noteq> salaryMax j \<longrightarrow> updatedAt j' = now st) \<and>
           map job_id (jobs st') = map job_id (jobs st) \<and>
           filter (\<lambda>x. job_id x \<noteq> job_id j) (jobs st') =
             filter (\<lambda>x. job_id x \<noteq> job_id j) (jobs st) \<and>
           st' = st\<lparr>jobs := jobs st'\<rparr>"
proof -
  from putJob_cases[OF assms] consider
    (same) "st' = st"
    | (saved) j' where "assignJob L req j = Some j'"
        "r = Resp 200 (JobJson (stamp L req st j j'))"
        "st' = st\<lparr>jobs := saveExisting (stamp L req st j j') (jobs st)\<rparr>"
    by blast
  then show ?thesis
  proof cases
    case same
    with assms(3) show ?thesis by auto
  next
    case saved
    let ?s = "stamp L req st j j'"
    note d = assignJob_SomeD[OF saved(1)]
    have idj: "job_id ?s = job_id j" and emp: "employerId ?s = employerId j"
      and cr: "createdAt ?s = createdAt j"
      using d(1,2,7) by (simp_all add: stamp_simps)
    have found: "findById (jobs st') oid = Some ?s"
      using findById_saveExisting[OF assms(3) idj] saved(3) by simp
    have t: "\<not> truthy (bodyField req ''title'') \<longrightarrow> title ?s = title j"
      using assignString_falsy[OF _ d(3)] by (auto simp: stamp_simps)
    have de: "\<not> truthy (bodyField req ''description'') \<longrightarrow> description ?s = description j"
      using assignString_falsy[OF _ d(4)] by (auto simp: stamp_simps)
    have l: "\<not> truthy (bodyField req ''location'') \<longrightarrow> location ?s = location j"
      using assignString_falsy[OF _ d(5)] by (auto simp: stamp_simps)
    have s: "\<not> truthy (bodyField req ''salaryRange'') \<longrightarrow>
        salaryMin ?s = salaryMin j \<and> salaryMax ?s = salaryMax j"
      using d(6) by (auto simp: assignSalaryRange_def stamp_simps)
    have u1: "updatedAt ?s = updatedAt j \<or> updatedAt ?s = now st"
      using d(8) by (simp add: stamp_simps)
    have u2: "title ?s \<noteq> title j \<or> description ?s \<noteq> description j \<or>
        location ?s \<noteq> location j \<or> salaryMin ?s \<noteq> salaryMin j \<or>
        salaryMax ?s \<noteq> salaryMax j \<longrightarrow> updatedAt ?s = now st"
      by (auto simp: stamp_simps modified_def)
    have ids: "map job_id (jobs st') = map job_id (jobs st)"
      by (simp add: saved(3) map_job_id_saveExisting)
    have others: "filter (\<lambda>x. job_id x \<noteq> job_id j) (jobs st') =
        filter (\<lambda>x. job_id x \<noteq> job_id j) (jobs st)"
      using saveExisting_others[of ?s "jobs st"] idj by (simp add: saved(3))
    have rest: "st' = st\<lparr>jobs := jobs st'\<rparr>"
      by (simp add: saved(3))
    from found idj emp cr t de l s u1 u2 ids others rest show ?thesis
      by blast
  qed
qed

theorem update_frame_witness:
  "updateChecks exampleLib (bearerRequest ''token-acme'' ''607d1b2f4f1c2c0015f3e2b5''
     [(''title'', JNum (Fin 0)), (''description'', JStr ''Maintain services.'')]) = Some [] \<and>
   putJob exampleLib
     (bearerRequest ''token-acme'' ''607d1b2f4f1c2c0015f3e2b5''
        [(''title'', JNum (Fin 0)), (''description'', JStr ''Maintain services.'')])
     exampleState =
     (Resp 200 (JobJson (exampleJob\<lparr>description := ''Maintain services.'', updatedAt := 2\<rparr>)),
      exampleState\<lparr>jobs :=
        [exampleJob\<lparr>description := ''Maintain services.'', updatedAt := 2\<rparr>]\<rparr>) \<and>
   (\<exists>j'. findById [exampleJob\<lparr>description := ''Maintain services.'', updatedAt := 2\<rparr>]
            ''607d1b2f4f1c2c0015f3e2b5'' = Some j' \<and>
         job_id j' = job_id exampleJob \<and> employerId j' = employerId exampleJob \<and>
         createdAt j' = createdAt exampleJob \<and>
         title j' = title exampleJob \<and> location j' = location exampleJob \<and>
         salaryMin j' = salaryMin exampleJob \<and> salaryMax j' = salaryMax exampleJob \<and>
         description j' = ''Maintain services.'' \<and> updatedAt j' = now exampleState)"
proof -
  let ?req = "bearerRequest ''token-acme'' ''607d1b2f4f1c2c0015f3e2b5''
        [(''title'', JNum (Fin 0)), (''description'', JStr ''Maintain services.'')]"
  let ?j' = "exampleJob\<lparr>description := ''Maintain services.'', updatedAt := 2\<rparr>"
  have c: "castObjectId (pathId ?req) = Some ''607d1b2f4f1c2c0015f3e2b5''"
    by (simp add: bearerRequest_simps castObjectId_examples)
  have f: "findById (jobs exampleState) ''607d1b2f4f1c2c0015f3e2b5'' = Some exampleJob"
    by (simp add: exampleState_simps findById_examples)
  have run: "putJob exampleLib ?req exampleState =
      (Resp 200 (JobJson ?j'), exampleState\<lparr>jobs := [?j']\<rparr>)"
    using updateJob_found[OF exampleUpdate_checks(2) exampleState_simps(8) c f]
    by (simp add: putJob_def exampleAuth exampleUpdate_assign exampleUpdate_stamp
        exampleJob_fields exampleState_simps)
  have fj: "findById [?j'] ''607d1b2f4f1c2c0015f3e2b5'' = Some ?j'"
    by (simp add: findById_def exampleJob_fields)
  have ch: "description ?j' \<noteq> description exampleJob"
    by (simp add: exampleJob_fields)
  from update_frame[OF run c f] fj run ch exampleUpdate_checks(2)
  show ?thesis
    by (auto simp: bearerRequest_simps exampleState_simps)
qed

text \<open>The claim as stated fails for the timestamp of the schema: the owner's update
  with a new title and nothing else is answered 200, and the stored \<open>updatedAt\<close>, a field
  that is absent from the request body, no longer has its prior value.\<close>

theorem update_frame_counterexample:
  "bodyField (bearerRequest ''token-acme'' ''607d1b2f4f1c2c0015f3e2b5''
     [(''title'', JStr ''Senior Engineer''),
      (''salaryRange'', JObj [(''min'', JNum (Fin 70000)), (''max'', JNum (Fin 95000))])])
     ''updatedAt'' = JUndefined \<and>
   putJob exampleLib
     (bearerRequest ''token-acme'' ''607d1b2f4f1c2c0015f3e2b5''
        [(''title'', JStr ''Senior Engineer''),
         (''salaryRange'', JObj [(''min'', JNum (Fin 70000)), (''max'', JNum (Fin 95000))])])
     exampleState =
     (Resp 200 (JobJson
        (exampleJob\<lparr>title := ''Senior Engineer'', salaryMin := Fin 70000,
           salaryMax := Fin 95000, updatedAt := 2\<rparr>)),
      exampleState\<lparr>jobs :=
        [exampleJob\<lparr>title := ''Senior Engineer'', salaryMin := Fin 70000,
           salaryMax := Fin 95000, updatedAt := 2\<rparr>]\<rparr>) \<and>
   updatedAt exampleJob = 1 \<and>
   updatedAt (exampleJob\<lparr>title := ''Senior Engineer'', salaryMin := Fin 70000,
           salaryMax := Fin 95000, updatedAt := 2\<rparr>) = 2"
  by (simp add: putJob_def updateJob_def exampleAuth exampleUpdate_checks exampleUpdate_assign
      exampleUpdate_stamp bearerRequest_simps castObjectId_examples exampleState_simps
      findById_examples exampleJob_fields)

section \<open>Requests that carry fields outside the body\<close>

text \<open>
  The validation chains built with \<open>check\<close> read the query and the headers as well as
  the body, while the handlers read the body only. The sample requests below run the
  handlers on such requests: an empty candidate name in the query makes a submission
  with a valid body fail validation; a submission whose fields are all in the query
  passes validation and is answered 404 for an unknown job; a create-job request whose
  fields are all in the query passes validation and is answered 403; an empty title in
  the query makes an update with a valid body fail validation; and a \<open>minSalary\<close> that is
  repeated in the query is an array of numeric strings whose \<open>Number\<close> is \<open>NaN\<close>, which the
  store refuses.
\<close>

lemma submitApplication_query_examples:
  "submitApplication exampleLib
     \<lparr>headers = [], pathId = ''607d1b2f4f1c2c0015f3e2b5'',
      query = [(''candidateName'', JStr [])],
      body = [(''candidateName'', JStr ''Ada''), (''candidateEmail'', JStr ''ada@example.com'')]\<rparr>
     exampleState =
   (Resp 400 (Errors [(''candidateName'', ''Candidate name is required'')]), exampleState)"
  "submitApplication exampleLib
     \<lparr>headers = [], pathId = ''000000000000000000000000'',
      query = [(''candidateName'', JStr ''Ada''), (''candidateEmail'', JStr ''ada@example.com'')],
      body = []\<rparr>
     exampleState =
   (Resp 404 (ErrorMsg ''Job not found''), exampleState)"
  by (simp_all add: submitApplication_def applyChecks_def checkParam_def checkField_def
      fieldInstances_def headersObject_def lodashGet_def joinWith_def toLowerCase_def
      runValidator_scalar notEmpty_def isMongoId_examples castObjectId_examples
      exampleState_simps findById_examples exampleLib_simps)

lemma postJobs_query_example:
  "postJobs exampleLib
     \<lparr>headers = [], pathId = [],
      query = [(''title'', JStr ''Data Engineer''), (''description'', JStr ''Build pipelines.''),
               (''location'', JStr ''Berlin''),
               (''salaryRange'', JObj [(''min'', JStr ''60000''), (''max'', JStr ''90000'')])],
      body = []\<rparr>
     exampleState =
   (Resp 403 (ErrorMsg ''Unauthorized: Employer ID missing.''), exampleState)"
  by (simp add: postJobs_def createJob_def createChecks_def checkField_def
      fieldInstances_def headersObject_def lodashGet_def joinWith_def toLowerCase_def
      runValidator_scalar notEmpty_def isNumericStr_examples userId_def)

lemma putJob_query_example:
  "putJob exampleLib
     (bearerRequest ''token-acme'' ''607d1b2f4f1c2c0015f3e2b5''
        [(''title'', JStr ''Senior Engineer'')]\<lparr>query := [(''title'', JStr [])]\<rparr>)
     exampleState =
   (Resp 400 (Errors [(''title'', ''Title cannot be empty'')]), exampleState)"
proof -
  let ?req = "bearerRequest ''token-acme'' ''607d1b2f4f1c2c0015f3e2b5''
        [(''title'', JStr ''Senior Engineer'')]\<lparr>query := [(''title'', JStr [])]\<rparr>"
  have a: "authenticateJWT exampleLib ?req =
      Inr \<lparr>uid = ''67a7cfa24ac1ab925c2a1a7c'', uemail = ''employer@example.com''\<rparr>"
    using exampleAuth(1)[of "''607d1b2f4f1c2c0015f3e2b5''" "[(''title'', JStr ''Senior Engineer'')]"]
    by (simp add: authenticateJWT_def bearerRequest_def)
  have c: "updateChecks exampleLib ?req = Some [(''title'', ''Title cannot be empty'')]"
    by (simp add: updateChecks_def checkParam_def checkOptional_def fieldInstances_def
        headersObject_def bearerRequest_def lodashGet_def joinWith_def toLowerCase_def
        lowerChar_def runValidator_scalar notEmpty_def isMongoId_examples)
  show ?thesis
    by (simp add: putJob_def a updateJob_def c)
qed

lemma searchJobs_repeated_example:
  "searchJobs exampleLib
     (searchRequest [(''minSalary'', JArr [JStr ''50000'', JStr ''60000''])]) exampleState =
   Resp 500 (ErrorMsg ''Internal Server Error'')"
proof -
  have n: "decimalValue ''50000,60000'' = NaN"
    by (simp add: decimalValue_def isNumericStr_def stripSign_def isDigit_def)
  show ?thesis
    by (simp add: searchJobs_def searchChecks_def checkQueryOptional_def queryField_def
        searchRequest_def runValidator_def elementsOf_def validatorString_def
        isNumericStr_examples searchFilters_def textClause_def minClause_def maxClause_def
        jsNumber_def joinWith_def exampleLib_simps n castable_def)
qed

end
